theory Spec2Isabelle
  imports Complex_Main
begin

section \<open>JavaScript values used by \<^verbatim>\<open>src/local-mcp/index.js\<close>\<close>

subsection \<open>Strings\<close>

text \<open>
  A JavaScript string is a sequence of UTF-16 code units; \<^verbatim>\<open>length\<close>, \<^verbatim>\<open>slice\<close>,
  \<^verbatim>\<open>lastIndexOf\<close>, \<^verbatim>\<open>split\<close> and the regular expressions of the source (none has the
  \<^verbatim>\<open>u\<close> flag) all work on code units. A code unit is modelled as a natural number, and
  \<open>js\<close> turns an ASCII literal into its code units.
\<close>

type_synonym jschar = nat
type_synonym jsstring = "jschar list"

definition js :: "string \<Rightarrow> jsstring" where
  "js s = map of_char s"

text \<open>
  \<^verbatim>\<open>s.lastIndexOf(c)\<close> for a one-character \<open>c\<close>: the greatest index holding \<open>c\<close>, and
  \<open>-1\<close> when there is none.
\<close>

definition lastIndexOf :: "jsstring \<Rightarrow> jschar \<Rightarrow> int" where
  "lastIndexOf s c =
     (if c \<in> set s
      then int (length s) - 1 - int (length (takeWhile (\<lambda>x. x \<noteq> c) (rev s)))
      else - 1)"

text \<open>
  The class \<^verbatim>\<open>\s\<close> of a regular expression, which is also what \<^verbatim>\<open>trim\<close> strips:
  TAB, LF, VT, FF, CR, SPACE, U+00A0, U+1680, U+2000 to U+200A, U+2028, U+2029, U+202F,
  U+205F, U+3000 and U+FEFF.
\<close>

definition is_space :: "jschar \<Rightarrow> bool" where
  "is_space c =
     (c \<in> set [9, 10, 11, 12, 13, 32, 160, 5760, 8232, 8233, 8239, 8287, 12288, 65279]
      \<or> (8192 \<le> c \<and> c \<le> 8202))"

definition trim :: "jsstring \<Rightarrow> jsstring" where
  "trim s = rev (dropWhile is_space (rev (dropWhile is_space s)))"

text \<open>
  \<^verbatim>\<open>s.split(/[...]+/)\<close> for a character class \<open>sep\<close>: the pieces between the maximal runs
  of separator characters. A separator run at the start or at the end leaves an empty
  piece there, and the empty string splits into one empty piece. \<open>cur\<close> is the piece
  being read.
\<close>

function split_re :: "(jschar \<Rightarrow> bool) \<Rightarrow> jsstring \<Rightarrow> jsstring \<Rightarrow> jsstring list" where
  "split_re sep cur [] = [cur]"
| "split_re sep cur (c # cs) =
     (if sep c then cur # split_re sep [] (dropWhile sep cs)
      else split_re sep (cur @ [c]) cs)"
  by pat_completeness auto
termination
  by (relation "measure (\<lambda>(sep, cur, s). length s)")
     (auto intro: le_imp_less_Suc length_dropWhile_le)

text \<open>\<^verbatim>\<open>a.join(sep)\<close> on an array of strings.\<close>

fun join :: "jsstring \<Rightarrow> jsstring list \<Rightarrow> jsstring" where
  "join sep [] = []"
| "join sep [x] = x"
| "join sep (x # y # ys) = x @ sep @ join sep (y # ys)"

text \<open>
  \<^verbatim>\<open>toLowerCase\<close>. The letters A to Z go to a to z. Every other code unit is left as it
  is: the Unicode mapping sends a code unit outside A to Z to itself or to code units that
  are no white space and occur in no word of the lexicons of the tone extractor (the only
  ASCII letters it produces from other input are k, from U+212A, and i followed by U+0307,
  from U+0130), so neither the split on white space nor a comparison with a lexicon word
  sees the difference.
\<close>

definition toLowerCase :: "jsstring \<Rightarrow> jsstring" where
  "toLowerCase s = map (\<lambda>c. if 65 \<le> c \<and> c \<le> 90 then c + 32 else c) s"

subsection \<open>Numbers\<close>

text \<open>
  A JavaScript number is an IEEE double. The model keeps the three special values and
  takes a finite value as a rational: arithmetic on finite values is exact, so the rounding
  of a double and the sign of zero are not modelled, and a division by zero is by \<open>+0\<close>.
  Every number that the source divides, adds or compares is a count of array elements, a
  constant of the source or a mean of such values.
\<close>

datatype jsnum = Num rat | PInf | NInf | NaN

fun js_add :: "jsnum \<Rightarrow> jsnum \<Rightarrow> jsnum" where
  "js_add NaN y = NaN"
| "js_add x NaN = NaN"
| "js_add (Num a) (Num b) = Num (a + b)"
| "js_add PInf NInf = NaN"
| "js_add NInf PInf = NaN"
| "js_add PInf y = PInf"
| "js_add NInf y = NInf"
| "js_add (Num a) y = y"

fun js_mul :: "jsnum \<Rightarrow> jsnum \<Rightarrow> jsnum" where
  "js_mul NaN y = NaN"
| "js_mul x NaN = NaN"
| "js_mul (Num a) (Num b) = Num (a * b)"
| "js_mul (Num a) PInf = (if a = 0 then NaN else if 0 < a then PInf else NInf)"
| "js_mul (Num a) NInf = (if a = 0 then NaN else if 0 < a then NInf else PInf)"
| "js_mul PInf (Num b) = (if b = 0 then NaN else if 0 < b then PInf else NInf)"
| "js_mul NInf (Num b) = (if b = 0 then NaN else if 0 < b then NInf else PInf)"
| "js_mul PInf PInf = PInf"
| "js_mul NInf NInf = PInf"
| "js_mul PInf NInf = NInf"
| "js_mul NInf PInf = NInf"

fun js_div :: "jsnum \<Rightarrow> jsnum \<Rightarrow> jsnum" where
  "js_div NaN y = NaN"
| "js_div x NaN = NaN"
| "js_div (Num a) (Num b) =
     (if b = 0 then (if a = 0 then NaN else if 0 < a then PInf else NInf) else Num (a / b))"
| "js_div (Num a) y = Num 0"
| "js_div PInf (Num b) = (if 0 \<le> b then PInf else NInf)"
| "js_div NInf (Num b) = (if 0 \<le> b then NInf else PInf)"
| "js_div x y = NaN"

text \<open>\<^verbatim>\<open>x < y\<close> and \<^verbatim>\<open>x > y\<close>: false as soon as one side is \<^verbatim>\<open>NaN\<close>.\<close>

fun js_lt :: "jsnum \<Rightarrow> jsnum \<Rightarrow> bool" where
  "js_lt NaN y = False"
| "js_lt x NaN = False"
| "js_lt (Num a) (Num b) = (a < b)"
| "js_lt x PInf = (x \<noteq> PInf)"
| "js_lt NInf y = (y \<noteq> NInf)"
| "js_lt x y = False"

definition js_gt :: "jsnum \<Rightarrow> jsnum \<Rightarrow> bool" where
  "js_gt x y = js_lt y x"

text \<open>\<^verbatim>\<open>Math.min(x, y)\<close>.\<close>

definition js_min :: "jsnum \<Rightarrow> jsnum \<Rightarrow> jsnum" where
  "js_min x y = (if x = NaN \<or> y = NaN then NaN else if js_lt y x then y else x)"

text \<open>
  Truthiness of a number, and \<^verbatim>\<open>x || d\<close> where \<open>x\<close> is a number: \<^verbatim>\<open>NaN\<close> and
  \<open>0\<close> are falsy, every other number (the infinities too) is truthy.
\<close>

definition truthy_num :: "jsnum \<Rightarrow> bool" where
  "truthy_num x = (x \<noteq> NaN \<and> x \<noteq> Num 0)"

definition js_or :: "jsnum \<Rightarrow> jsnum \<Rightarrow> jsnum" where
  "js_or x d = (if truthy_num x then x else d)"

text \<open>The number of elements of an array, as a number.\<close>

definition num_of_nat :: "nat \<Rightarrow> jsnum" where
  "num_of_nat n = Num (of_nat n)"

text \<open>
  \<^verbatim>\<open>Math.round(x)\<close> is \<open>\<lfloor>x + 1/2\<rfloor>\<close>, and the special values are kept.
\<close>

fun js_round :: "jsnum \<Rightarrow> jsnum" where
  "js_round (Num a) = Num (of_int \<lfloor>a + 1 / 2\<rfloor>)"
| "js_round x = x"

text \<open>
  The text of a number inside a template literal, for the numbers the source prints
  (results of \<^verbatim>\<open>Math.round\<close>): decimal digits with a minus sign, \<^verbatim>\<open>NaN\<close>,
  \<^verbatim>\<open>Infinity\<close>, \<^verbatim>\<open>-Infinity\<close>. (From 10^21 on JavaScript prints an exponent; the model prints
  all digits.)
\<close>

fun nat_to_string :: "nat \<Rightarrow> jsstring" where
  "nat_to_string n =
     (if n < 10 then [48 + n] else nat_to_string (n div 10) @ [48 + n mod 10])"

fun num_to_string :: "jsnum \<Rightarrow> jsstring" where
  "num_to_string NaN = js ''NaN''"
| "num_to_string PInf = js ''Infinity''"
| "num_to_string NInf = js ''-Infinity''"
| "num_to_string (Num a) =
     (if a < 0 then js ''-'' @ nat_to_string (nat \<lfloor>- a\<rfloor>) else nat_to_string (nat \<lfloor>a\<rfloor>))"

section \<open>Metrics extractors\<close>

subsection \<open>Sample analysis bundle\<close>

text \<open>
  The objects that the extractors return and that \<^verbatim>\<open>combineMetrics\<close> reads back from the
  \<^verbatim>\<open>style_analyses\<close> table. A property of a JavaScript object may be absent, and
  \<^verbatim>\<open>combineMetrics\<close> guards every read (\<^verbatim>\<open>a.sentence_metrics?.avg_length || 0\<close>), so
  every field is an option: \<open>None\<close> is an absent property (it reads as
  \<^verbatim>\<open>undefined\<close>). The extractors set every property of what they return.
\<close>

record length_distribution =
  short :: "jsnum option"
  medium :: "jsnum option"
  long :: "jsnum option"

record sentence_metrics =
  avg_length :: "jsnum option"
  length_distribution :: "length_distribution option"
  complexity_score :: "jsnum option"
  question_frequency :: "jsnum option"
  fragment_frequency :: "jsnum option"

record part_of_speech_distribution =
  nouns :: "jsnum option"
  verbs :: "jsnum option"
  adjectives :: "jsnum option"
  adverbs :: "jsnum option"

record vocabulary_metrics =
  lexical_diversity :: "jsnum option"
  formality_score :: "jsnum option"
  unusual_word_frequency :: "jsnum option"
  part_of_speech_distribution :: "part_of_speech_distribution option"

record narrative_characteristics =
  pov :: "jsstring option"
  tense :: "jsstring option"
  description_density :: "jsnum option"
  action_to_reflection_ratio :: "jsnum option"
  show_vs_tell_balance :: "jsnum option"

record stylistic_devices =
  metaphor_frequency :: "jsnum option"
  simile_frequency :: "jsnum option"
  alliteration_frequency :: "jsnum option"
  repetition_patterns :: "jsnum option"

record tone_attributes =
  emotional_tone :: "jsstring list option"
  formality_level :: "jsstring option"
  humor_level :: "jsnum option"
  sarcasm_level :: "jsnum option"

record analysis =
  sentence_metrics :: "sentence_metrics option"
  vocabulary_metrics :: "vocabulary_metrics option"
  narrative_characteristics :: "narrative_characteristics option"
  stylistic_devices :: "stylistic_devices option"
  tone_attributes :: "tone_attributes option"
  comparable_authors :: "jsstring list option"

subsection \<open>Sentence metrics\<close>

text \<open>
  \<^verbatim>\<open>
  const calculateSentenceMetrics = (text) => {
    const sentences = text.split(/[.!?]+/).filter(sentence => sentence.trim().length > 0);
    const sentenceLengths = sentences.map(sentence => sentence.split(/\s+/).filter(Boolean).length);
    const avgLength = sentenceLengths.reduce((sum, length) => sum + length, 0) / sentences.length || 0;
    const shortSentences = sentenceLengths.filter(len => len <= 10).length;
    const mediumSentences = sentenceLengths.filter(len => len > 10 && len <= 20).length;
    const longSentences = sentenceLengths.filter(len => len > 20).length;
    return {
      avg_length: avgLength,
      length_distribution: {
        short: shortSentences / sentences.length || 0,
        medium: mediumSentences / sentences.length || 0,
        long: longSentences / sentences.length || 0
      },
      complexity_score: Math.min(1, avgLength / 25),
      question_frequency: (text.match(/\?/g) || []).length / sentences.length || 0,
      fragment_frequency: sentences.filter(s => s.split(/\s+/).filter(Boolean).length < 5).length / sentences.length || 0
    };
  };
  \<close>
  \<^verbatim>\<open>a / b || 0\<close> is \<^verbatim>\<open>(a / b) || 0\<close>. A string is truthy when it is not empty, so
  \<^verbatim>\<open>filter(Boolean)\<close> drops the empty pieces.
\<close>

definition sentence_end :: "jschar \<Rightarrow> bool" where
  "sentence_end c = (c = 46 \<or> c = 33 \<or> c = 63)"

definition question_mark :: jschar where
  "question_mark = 63"

definition sentences_of :: "jsstring \<Rightarrow> jsstring list" where
  "sentences_of text = filter (\<lambda>sentence. length (trim sentence) > 0) (split_re sentence_end [] text)"

definition words_of :: "jsstring \<Rightarrow> jsstring list" where
  "words_of s = filter (\<lambda>w. w \<noteq> []) (split_re is_space [] s)"

definition calculateSentenceMetrics :: "jsstring \<Rightarrow> sentence_metrics" where
  "calculateSentenceMetrics text =
     (let sentences = sentences_of text;
          sentenceLengths = map (\<lambda>sentence. length (words_of sentence)) sentences;
          count = num_of_nat (length sentences);
          avgLength = js_or (js_div (num_of_nat (foldl (\<lambda>sum len. sum + len) 0 sentenceLengths)) count) (Num 0);
          shortSentences = length (filter (\<lambda>len. len \<le> 10) sentenceLengths);
          mediumSentences = length (filter (\<lambda>len. len > 10 \<and> len \<le> 20) sentenceLengths);
          longSentences = length (filter (\<lambda>len. len > 20) sentenceLengths)
      in \<lparr> avg_length = Some avgLength,
           length_distribution = Some
             \<lparr> short = Some (js_or (js_div (num_of_nat shortSentences) count) (Num 0)),
               medium = Some (js_or (js_div (num_of_nat mediumSentences) count) (Num 0)),
               long = Some (js_or (js_div (num_of_nat longSentences) count) (Num 0)) \<rparr>,
           complexity_score = Some (js_min (Num 1) (js_div avgLength (Num 25))),
           question_frequency = Some
             (js_or (js_div (num_of_nat (length (filter (\<lambda>c. c = question_mark) text))) count) (Num 0)),
           fragment_frequency = Some
             (js_or (js_div (num_of_nat (length (filter (\<lambda>s. length (words_of s) < 5) sentences))) count)
                (Num 0)) \<rparr>)"

subsection \<open>Vocabulary metrics\<close>

text \<open>
  \<^verbatim>\<open>
  const calculateVocabularyMetrics = (text) => {
    const words = text.toLowerCase().split(/\s+/).filter(Boolean);
    const uniqueWords = new Set(words.map(w => w.toLowerCase()));
    return {
      lexical_diversity: uniqueWords.size / words.length || 0,
      formality_score: 0.65, unusual_word_frequency: 0.05,
      part_of_speech_distribution: { nouns: 0.25, verbs: 0.2, adjectives: 0.15, adverbs: 0.08 }
    };
  };
  \<close>
  The set of unique words is a list without duplicates. Since \<open>toLowerCase\<close> folds the
  letters A to Z only, the lexical diversity is that of the source for texts whose letters
  are ASCII.
\<close>

definition calculateVocabularyMetrics :: "jsstring \<Rightarrow> vocabulary_metrics" where
  "calculateVocabularyMetrics text =
     (let words = words_of (toLowerCase text);
          uniqueWords = remdups (map toLowerCase words)
      in \<lparr> lexical_diversity = Some
             (js_or (js_div (num_of_nat (length uniqueWords)) (num_of_nat (length words))) (Num 0)),
           formality_score = Some (Num (65 / 100)),
           unusual_word_frequency = Some (Num (5 / 100)),
           part_of_speech_distribution = Some
             \<lparr> nouns = Some (Num (25 / 100)), verbs = Some (Num (2 / 10)),
               adjectives = Some (Num (15 / 100)), adverbs = Some (Num (8 / 100)) \<rparr> \<rparr>)"

subsection \<open>Narrative characteristics\<close>

text \<open>
  The counts come from \<^verbatim>\<open>(text.match(/\b(w1|w2|...)\b/gi) || []).length\<close>. The matcher
  is modelled as the regular expression engine runs it. A match is tried at every position
  from left to right: \<^verbatim>\<open>\b\<close> holds between a word character (\<^verbatim>\<open>[A-Za-z0-9_]\<close>) and a
  character that is none (or an end of the text); the alternatives are tried in their
  order, each compared character by character without regard to case; the \<^verbatim>\<open>\b\<close> at the
  end must hold, or the next alternative is tried. With the \<^verbatim>\<open>g\<close> flag the search goes on
  behind the match (one further when the match is empty). Without the \<^verbatim>\<open>u\<close> flag the
  \<^verbatim>\<open>i\<close> flag compares the upper-case forms, and never lets a code unit from 128 on
  equal an ASCII one, so \<open>canonicalize\<close> only has to fold a to z.
\<close>

definition is_word_char :: "jschar \<Rightarrow> bool" where
  "is_word_char c = ((48 \<le> c \<and> c \<le> 57) \<or> (65 \<le> c \<and> c \<le> 90) \<or> c = 95 \<or> (97 \<le> c \<and> c \<le> 122))"

definition canonicalize :: "jschar \<Rightarrow> jschar" where
  "canonicalize c = (if 97 \<le> c \<and> c \<le> 122 then c - 32 else c)"

text \<open>\<open>prev\<close> and \<open>next\<close> are the characters on both sides of a position, if any.\<close>

definition word_boundary :: "jschar option \<Rightarrow> jschar option \<Rightarrow> bool" where
  "word_boundary prev nxt =
     ((case prev of None \<Rightarrow> False | Some c \<Rightarrow> is_word_char c)
        \<noteq> (case nxt of None \<Rightarrow> False | Some c \<Rightarrow> is_word_char c))"

text \<open>The alternative \<open>alt\<close> matches a prefix of \<open>s\<close>; the result is what follows it.\<close>

fun match_literal :: "jsstring \<Rightarrow> jsstring \<Rightarrow> jsstring option" where
  "match_literal [] s = Some s"
| "match_literal (a # alt) [] = None"
| "match_literal (a # alt) (c # s) =
     (if canonicalize a = canonicalize c then match_literal alt s else None)"

text \<open>
  \<^verbatim>\<open>(w1|w2|...)\b\<close> at a position, \<open>prev\<close> being the character before it: the length
  of the match.
\<close>

fun match_alternatives :: "jsstring list \<Rightarrow> jschar option \<Rightarrow> jsstring \<Rightarrow> nat option" where
  "match_alternatives [] prev s = None"
| "match_alternatives (alt # alts) prev s =
     (case match_literal alt s of
        None \<Rightarrow> match_alternatives alts prev s
      | Some rest \<Rightarrow>
          if word_boundary (if alt = [] then prev else Some (s ! (length alt - 1)))
               (case rest of [] \<Rightarrow> None | c # _ \<Rightarrow> Some c)
          then Some (length alt)
          else match_alternatives alts prev s)"

text \<open>
  The number of matches of \<^verbatim>\<open>/\b(w1|w2|...)\b/gi\<close>. \<open>skip\<close> counts the characters of
  the last match that are still to be passed.
\<close>

fun count_matches :: "jsstring list \<Rightarrow> nat \<Rightarrow> jschar option \<Rightarrow> jsstring \<Rightarrow> nat" where
  "count_matches alts skip prev [] = 0"
| "count_matches alts (Suc skip) prev (c # s) = count_matches alts skip (Some c) s"
| "count_matches alts 0 prev (c # s) =
     (if word_boundary prev (Some c)
      then (case match_alternatives alts prev (c # s) of
              None \<Rightarrow> count_matches alts 0 (Some c) s
            | Some n \<Rightarrow> Suc (count_matches alts (n - 1) (Some c) s))
      else count_matches alts 0 (Some c) s)"

text \<open>
  \<^verbatim>\<open>
  const analyzeNarrativeCharacteristics = (text) => {
    const firstPersonIndicators = (text.match(/\b(I|me|my|mine|we|us|our|ours)\b/gi) || []).length;
    const thirdPersonIndicators = (text.match(/\b(he|him|his|she|her|hers|they|them|their|theirs)\b/gi) || []).length;
    let pov = "unknown";
    if (firstPersonIndicators > thirdPersonIndicators * 2) { pov = "first_person"; }
    else if (thirdPersonIndicators > firstPersonIndicators) { pov = "third_person"; }
    const presentTenseIndicators = (text.match(/\b(is|are|am|being|do|does|has|have)\b/gi) || []).length;
    const pastTenseIndicators = (text.match(/\b(was|were|had|did)\b/gi) || []).length;
    let tense = "unknown";
    if (presentTenseIndicators > pastTenseIndicators * 1.5) { tense = "present"; }
    else if (pastTenseIndicators > presentTenseIndicators) { tense = "past"; }
    return { pov, tense, description_density: 0.4, action_to_reflection_ratio: 1.5, show_vs_tell_balance: 0.65 };
  };
  \<close>
\<close>

definition firstPersonIndicators :: "jsstring \<Rightarrow> nat" where
  "firstPersonIndicators text =
     count_matches (map js [''I'', ''me'', ''my'', ''mine'', ''we'', ''us'', ''our'', ''ours'']) 0 None text"

definition thirdPersonIndicators :: "jsstring \<Rightarrow> nat" where
  "thirdPersonIndicators text =
     count_matches (map js [''he'', ''him'', ''his'', ''she'', ''her'', ''hers'', ''they'', ''them'',
       ''their'', ''theirs'']) 0 None text"

definition presentTenseIndicators :: "jsstring \<Rightarrow> nat" where
  "presentTenseIndicators text =
     count_matches (map js [''is'', ''are'', ''am'', ''being'', ''do'', ''does'', ''has'', ''have'']) 0 None text"

definition pastTenseIndicators :: "jsstring \<Rightarrow> nat" where
  "pastTenseIndicators text =
     count_matches (map js [''was'', ''were'', ''had'', ''did'']) 0 None text"

definition analyzeNarrativeCharacteristics :: "jsstring \<Rightarrow> narrative_characteristics" where
  "analyzeNarrativeCharacteristics text =
     \<lparr> pov = Some
         (if firstPersonIndicators text > thirdPersonIndicators text * 2 then js ''first_person''
          else if thirdPersonIndicators text > firstPersonIndicators text then js ''third_person''
          else js ''unknown''),
       tense = Some
         (if js_gt (num_of_nat (presentTenseIndicators text))
               (js_mul (num_of_nat (pastTenseIndicators text)) (Num (15 / 10)))
          then js ''present''
          else if pastTenseIndicators text > presentTenseIndicators text then js ''past''
          else js ''unknown''),
       description_density = Some (Num (4 / 10)),
       action_to_reflection_ratio = Some (Num (15 / 10)),
       show_vs_tell_balance = Some (Num (65 / 100)) \<rparr>"

subsection \<open>Stylistic devices\<close>

definition analyzeStyleDevices :: "jsstring \<Rightarrow> stylistic_devices" where
  "analyzeStyleDevices text =
     \<lparr> metaphor_frequency = Some (Num (2 / 100)),
       simile_frequency = Some (Num (15 / 1000)),
       alliteration_frequency = Some (Num (8 / 1000)),
       repetition_patterns = Some (Num (3 / 100)) \<rparr>"

subsection \<open>Tone\<close>

text \<open>
  \<^verbatim>\<open>
  const analyzeTone = (text) => {
    const positiveWords = ['happy', 'joy', 'love', 'excellent', 'good', 'great'];
    const negativeWords = ['sad', 'angry', 'hate', 'terrible', 'bad', 'awful'];
    const formalWords = ['therefore', 'furthermore', 'consequently', 'nevertheless'];
    const words = text.toLowerCase().split(/\s+/).filter(Boolean);
    const positiveCount = words.filter(word => positiveWords.includes(word)).length;
    const negativeCount = words.filter(word => negativeWords.includes(word)).length;
    const formalCount = words.filter(word => formalWords.includes(word)).length;
    let emotionalTone = [];
    if (positiveCount > negativeCount * 2) { emotionalTone.push('optimistic'); }
    else if (negativeCount > positiveCount * 2) { emotionalTone.push('pessimistic'); }
    else { emotionalTone.push('neutral'); }
    const formality = formalCount / words.length > 0.01 ? 'formal' : 'casual';
    return { emotional_tone: emotionalTone, formality_level: formality, humor_level: 0.2, sarcasm_level: 0.1 };
  };
  \<close>
\<close>

definition positiveWords :: "jsstring list" where
  "positiveWords = map js [''happy'', ''joy'', ''love'', ''excellent'', ''good'', ''great'']"

definition negativeWords :: "jsstring list" where
  "negativeWords = map js [''sad'', ''angry'', ''hate'', ''terrible'', ''bad'', ''awful'']"

definition formalWords :: "jsstring list" where
  "formalWords = map js [''therefore'', ''furthermore'', ''consequently'', ''nevertheless'']"

definition tone_words :: "jsstring \<Rightarrow> jsstring list" where
  "tone_words text = words_of (toLowerCase text)"

definition positiveCount :: "jsstring \<Rightarrow> nat" where
  "positiveCount text = length (filter (\<lambda>word. word \<in> set positiveWords) (tone_words text))"

definition negativeCount :: "jsstring \<Rightarrow> nat" where
  "negativeCount text = length (filter (\<lambda>word. word \<in> set negativeWords) (tone_words text))"

definition formalCount :: "jsstring \<Rightarrow> nat" where
  "formalCount text = length (filter (\<lambda>word. word \<in> set formalWords) (tone_words text))"

definition analyzeTone :: "jsstring \<Rightarrow> tone_attributes" where
  "analyzeTone text =
     \<lparr> emotional_tone = Some
         (if positiveCount text > negativeCount text * 2 then [] @ [js ''optimistic'']
          else if negativeCount text > positiveCount text * 2 then [] @ [js ''pessimistic'']
          else [] @ [js ''neutral'']),
       formality_level = Some
         (if js_gt (js_div (num_of_nat (formalCount text)) (num_of_nat (length (tone_words text))))
               (Num (1 / 100))
          then js ''formal'' else js ''casual''),
       humor_level = Some (Num (2 / 10)),
       sarcasm_level = Some (Num (1 / 10)) \<rparr>"

section \<open>Excerpt builder\<close>

text \<open>
  \<^verbatim>\<open>
  const createExcerpt = (text) => {
    const excerpt = text.slice(0, 200);
    const lastPeriod = excerpt.lastIndexOf('.');
    if (lastPeriod > 100) {
      return excerpt.slice(0, lastPeriod + 1);
    }
    return excerpt + '...';
  };
  \<close>
  \<^verbatim>\<open>slice(0, n)\<close> with \<open>0 \<le> n\<close> is \<open>take n\<close>.
\<close>

definition period :: jschar where
  "period = 46"

definition createExcerpt :: "jsstring \<Rightarrow> jsstring" where
  "createExcerpt text =
     (let excerpt = take 200 text;
          lastPeriod = lastIndexOf excerpt period
      in if lastPeriod > 100 then take (nat (lastPeriod + 1)) excerpt
         else excerpt @ js ''...'')"

section \<open>Metrics aggregator\<close>

subsection \<open>Style parameters\<close>

text \<open>
  The composite that \<^verbatim>\<open>combineMetrics\<close> builds and \<^verbatim>\<open>formatStyleGuidance\<close> reads (the
  callers add \<^verbatim>\<open>comparable_authors\<close> and \<^verbatim>\<open>user_comments\<close> of the profile). A field is an
  option where the formatter tests its presence before reading it, \<open>None\<close> being the
  absent property. \<^verbatim>\<open>combineMetrics\<close> sets every other field, and the formatter reads those
  without a test. (\<open>prefer_terms\<close> is the property \<^verbatim>\<open>prefer\<close>.)
\<close>

record sentence_parameters =
  avg_length :: jsnum
  short :: jsnum
  medium :: jsnum
  long :: jsnum
  length_distribution :: "length_distribution option"
  complexity :: jsnum
  questions :: bool

record vocabulary_parameters =
  diversity :: jsnum
  formality :: jsstring
  avoid :: "jsstring list option"
  prefer_terms :: "jsstring list option"

record narrative_parameters =
  pov :: jsstring
  tense :: jsstring
  description_heavy :: bool
  action_ratio :: jsnum

record tone_parameters =
  emotional :: "jsstring list option"
  formality :: "jsstring option"
  humor :: "jsstring option"

record device_parameters =
  metaphors :: bool
  similes :: bool
  alliteration :: bool
  repetition :: bool
  avoid :: "jsstring list option"

record style_parameters =
  sentence :: "sentence_parameters option"
  vocabulary :: "vocabulary_parameters option"
  narrative :: "narrative_parameters option"
  tone :: "tone_parameters option"
  devices :: "device_parameters option"
  comparable_authors :: "jsstring list option"
  user_comments :: "jsstring option"

subsection \<open>Means of the numeric fields\<close>

text \<open>
  \<^verbatim>\<open>x || d\<close> where \<open>x\<close> is a numeric property that may be absent: \<^verbatim>\<open>undefined\<close>,
  \<^verbatim>\<open>NaN\<close> and \<open>0\<close> give \<open>d\<close>. The optional chain \<^verbatim>\<open>a.m?.f\<close> is \<open>Option.bind\<close>.
\<close>

definition or_num :: "jsnum option \<Rightarrow> jsnum \<Rightarrow> jsnum" where
  "or_num x d = (case x of None \<Rightarrow> d | Some v \<Rightarrow> js_or v d)"

text \<open>
  \<^verbatim>\<open>analyses.reduce((sum, a) => sum + f(a), 0) / analyses.length\<close>
\<close>

definition mean_of :: "(analysis \<Rightarrow> jsnum) \<Rightarrow> analysis list \<Rightarrow> jsnum" where
  "mean_of f analyses =
     js_div (foldl (\<lambda>sum a. js_add sum (f a)) (Num 0) analyses) (num_of_nat (length analyses))"

definition avgSentenceLength :: "analysis list \<Rightarrow> jsnum" where
  "avgSentenceLength =
     mean_of (\<lambda>a. or_num (Option.bind (sentence_metrics a) sentence_metrics.avg_length) (Num 0))"

text \<open>
  \<^verbatim>\<open>
  let shortTotal = 0, mediumTotal = 0, longTotal = 0;
  analyses.forEach(a => {
    if (a.sentence_metrics?.length_distribution) {
      shortTotal += a.sentence_metrics.length_distribution.short || 0;
      mediumTotal += a.sentence_metrics.length_distribution.medium || 0;
      longTotal += a.sentence_metrics.length_distribution.long || 0;
    }
  });
  \<close>
\<close>

definition distribution_totals :: "analysis list \<Rightarrow> jsnum \<times> jsnum \<times> jsnum" where
  "distribution_totals analyses =
     foldl (\<lambda>(shortTotal, mediumTotal, longTotal) a.
        case Option.bind (sentence_metrics a) sentence_metrics.length_distribution of
          None \<Rightarrow> (shortTotal, mediumTotal, longTotal)
        | Some d \<Rightarrow>
            (js_add shortTotal (or_num (length_distribution.short d) (Num 0)),
             js_add mediumTotal (or_num (length_distribution.medium d) (Num 0)),
             js_add longTotal (or_num (length_distribution.long d) (Num 0))))
       (Num 0, Num 0, Num 0) analyses"

definition complexityScore :: "analysis list \<Rightarrow> jsnum" where
  "complexityScore =
     mean_of (\<lambda>a. or_num (Option.bind (sentence_metrics a) complexity_score) (Num 0))"

definition questionFrequency :: "analysis list \<Rightarrow> jsnum" where
  "questionFrequency =
     mean_of (\<lambda>a. or_num (Option.bind (sentence_metrics a) question_frequency) (Num 0))"

definition lexicalDiversity :: "analysis list \<Rightarrow> jsnum" where
  "lexicalDiversity =
     mean_of (\<lambda>a. or_num (Option.bind (vocabulary_metrics a) lexical_diversity) (Num 0))"

definition formalityScore :: "analysis list \<Rightarrow> jsnum" where
  "formalityScore =
     mean_of (\<lambda>a. or_num (Option.bind (vocabulary_metrics a) formality_score) (Num 0))"

text \<open>
  \<^verbatim>\<open>
  const actionRatio = analyses.reduce((sum, a) =>
    sum + (a.narrative_characteristics?.action_to_reflection_ratio || 1), 0) / analyses.length;
  \<close>
\<close>

definition actionRatio :: "analysis list \<Rightarrow> jsnum" where
  "actionRatio =
     mean_of (\<lambda>a. or_num (Option.bind (narrative_characteristics a) action_to_reflection_ratio) (Num 1))"

record deviceFrequencies =
  metaphor :: jsnum
  simile :: jsnum
  alliteration :: jsnum
  repetition :: jsnum

definition deviceFrequencies :: "analysis list \<Rightarrow> deviceFrequencies" where
  "deviceFrequencies analyses =
     \<lparr> metaphor = mean_of (\<lambda>a. or_num (Option.bind (stylistic_devices a) metaphor_frequency) (Num 0)) analyses,
       simile = mean_of (\<lambda>a. or_num (Option.bind (stylistic_devices a) simile_frequency) (Num 0)) analyses,
       alliteration =
         mean_of (\<lambda>a. or_num (Option.bind (stylistic_devices a) alliteration_frequency) (Num 0)) analyses,
       repetition =
         mean_of (\<lambda>a. or_num (Option.bind (stylistic_devices a) repetition_patterns) (Num 0)) analyses \<rparr>"

subsection \<open>Dominant value of a categorical field\<close>

text \<open>
  The source has this loop three times, for \<^verbatim>\<open>pov\<close>, \<^verbatim>\<open>tense\<close> and
  \<^verbatim>\<open>formality_level\<close>:
  \<^verbatim>\<open>
  const povCounts = {};
  analyses.forEach(a => {
    const pov = a.narrative_characteristics?.pov;
    if (pov) { povCounts[pov] = (povCounts[pov] || 0) + 1; }
  });
  let dominantPov = "unknown";
  let maxCount = 0;
  Object.keys(povCounts).forEach(pov => {
    if (povCounts[pov] > maxCount) { dominantPov = pov; maxCount = povCounts[pov]; }
  });
  \<close>
  The counting object is an association list in the order in which the keys were first
  set, which is the order of \<^verbatim>\<open>Object.keys\<close> for keys such as the values the extractors
  produce. That does not hold for every string: \<^verbatim>\<open>Object.keys\<close> puts keys that are array
  indices (\<^verbatim>\<open>"0"\<close>, \<^verbatim>\<open>"17"\<close>) first, and a key that names a property of
  \<^verbatim>\<open>Object.prototype\<close> (\<^verbatim>\<open>"constructor"\<close>, \<^verbatim>\<open>"__proto__"\<close>) does not start from an
  absent count. \<open>plain_key\<close> holds for the keys that the association list models; it
  leaves out every string of digits and every property name of \<^verbatim>\<open>Object.prototype\<close>.
\<close>

definition plain_key :: "jsstring \<Rightarrow> bool" where
  "plain_key k =
     (\<not> (k \<noteq> [] \<and> list_all (\<lambda>c. 48 \<le> c \<and> c \<le> 57) k)
      \<and> k \<notin> set (map js [''__proto__'', ''constructor'', ''hasOwnProperty'', ''isPrototypeOf'',
            ''propertyIsEnumerable'', ''toLocaleString'', ''toString'', ''valueOf'',
            ''__defineGetter__'', ''__defineSetter__'', ''__lookupGetter__'', ''__lookupSetter__'']))"

text \<open>\<^verbatim>\<open>counts[k] = (counts[k] || 0) + 1\<close>\<close>

fun increment :: "jsstring \<Rightarrow> (jsstring \<times> nat) list \<Rightarrow> (jsstring \<times> nat) list" where
  "increment k [] = [(k, 0 + 1)]"
| "increment k ((k', n) # counts) =
     (if k = k' then (k', n + 1) # counts else (k', n) # increment k counts)"

text \<open>A string is truthy when it is present and not empty.\<close>

definition truthy_str :: "jsstring option \<Rightarrow> bool" where
  "truthy_str x = (case x of None \<Rightarrow> False | Some s \<Rightarrow> s \<noteq> [])"

definition count_values :: "(analysis \<Rightarrow> jsstring option) \<Rightarrow> analysis list \<Rightarrow> (jsstring \<times> nat) list" where
  "count_values field analyses =
     foldl (\<lambda>counts a. if truthy_str (field a) then increment (the (field a)) counts else counts)
       [] analyses"

definition dominant :: "jsstring \<Rightarrow> (jsstring \<times> nat) list \<Rightarrow> jsstring" where
  "dominant initial counts =
     fst (foldl (\<lambda>(dominantValue, maxCount) (k, n).
                   if n > maxCount then (k, n) else (dominantValue, maxCount))
            (initial, 0) counts)"

definition dominantPov :: "analysis list \<Rightarrow> jsstring" where
  "dominantPov analyses =
     dominant (js ''unknown'')
       (count_values (\<lambda>a. Option.bind (narrative_characteristics a) narrative_characteristics.pov) analyses)"

definition dominantTense :: "analysis list \<Rightarrow> jsstring" where
  "dominantTense analyses =
     dominant (js ''unknown'')
       (count_values (\<lambda>a. Option.bind (narrative_characteristics a) narrative_characteristics.tense) analyses)"

definition dominantFormality :: "analysis list \<Rightarrow> jsstring" where
  "dominantFormality analyses =
     dominant (js ''neutral'')
       (count_values (\<lambda>a. Option.bind (tone_attributes a) formality_level) analyses)"

subsection \<open>Collected sets\<close>

text \<open>
  A \<^verbatim>\<open>Set\<close> of strings keeps its elements in the order of their first \<^verbatim>\<open>add\<close>, and
  \<^verbatim>\<open>Array.from\<close> lists them in that order. An array is truthy even when it is empty.
  \<^verbatim>\<open>
  const tones = new Set();
  analyses.forEach(a => {
    if (a.tone_attributes?.emotional_tone) {
      a.tone_attributes.emotional_tone.forEach(tone => tones.add(tone));
    }
  });
  \<close>
  and the same for \<^verbatim>\<open>a.comparable_authors\<close>.
\<close>

definition set_add :: "jsstring list \<Rightarrow> jsstring \<Rightarrow> jsstring list" where
  "set_add s x = (if x \<in> set s then s else s @ [x])"

definition collect :: "(analysis \<Rightarrow> jsstring list option) \<Rightarrow> analysis list \<Rightarrow> jsstring list" where
  "collect field analyses =
     foldl (\<lambda>s a. case field a of None \<Rightarrow> s | Some xs \<Rightarrow> foldl set_add s xs) [] analyses"

definition tones :: "analysis list \<Rightarrow> jsstring list" where
  "tones = collect (\<lambda>a. Option.bind (tone_attributes a) emotional_tone)"

definition authors :: "analysis list \<Rightarrow> jsstring list" where
  "authors = collect analysis.comparable_authors"

subsection \<open>The composite\<close>

text \<open>
  \<^verbatim>\<open>
  const combineMetrics = (analyses) => {
    if (!analyses || analyses.length === 0) { return null; }
    ...
    return {
      sentence: { avg_length: avgSentenceLength, short: shortTotal / analyses.length,
        medium: mediumTotal / analyses.length, long: longTotal / analyses.length,
        complexity: complexityScore, questions: questionFrequency > 0.05 },
      vocabulary: { diversity: lexicalDiversity,
        formality: formalityScore > 0.6 ? 'formal' : formalityScore > 0.4 ? 'neutral' : 'casual' },
      narrative: { pov: dominantPov, tense: dominantTense,
        description_heavy: actionRatio < 1, action_ratio: actionRatio },
      tone: { emotional: Array.from(tones), formality: dominantFormality, humor: "low" },
      devices: { metaphors: deviceFrequencies.metaphor > 0.01, similes: deviceFrequencies.simile > 0.01,
        alliteration: deviceFrequencies.alliteration > 0.01, repetition: deviceFrequencies.repetition > 0.01 },
      comparable_authors: Array.from(authors)
    };
  };
  \<close>
  \<open>None\<close> is the \<^verbatim>\<open>null\<close> that is returned for no analyses.
\<close>

definition combineMetrics :: "analysis list \<Rightarrow> style_parameters option" where
  "combineMetrics analyses =
     (if length analyses = 0 then None
      else
        (let count = num_of_nat (length analyses);
             (shortTotal, mediumTotal, longTotal) = distribution_totals analyses
         in Some
           \<lparr> sentence = Some
               \<lparr> avg_length = avgSentenceLength analyses,
                 short = js_div shortTotal count,
                 medium = js_div mediumTotal count,
                 long = js_div longTotal count,
                 length_distribution = None,
                 complexity = complexityScore analyses,
                 questions = js_gt (questionFrequency analyses) (Num (5 / 100)) \<rparr>,
             vocabulary = Some
               \<lparr> diversity = lexicalDiversity analyses,
                 formality =
                   (if js_gt (formalityScore analyses) (Num (6 / 10)) then js ''formal''
                    else if js_gt (formalityScore analyses) (Num (4 / 10)) then js ''neutral''
                    else js ''casual''),
                 avoid = None,
                 prefer_terms = None \<rparr>,
             narrative = Some
               \<lparr> pov = dominantPov analyses,
                 tense = dominantTense analyses,
                 description_heavy = js_lt (actionRatio analyses) (Num 1),
                 action_ratio = actionRatio analyses \<rparr>,
             tone = Some
               \<lparr> emotional = Some (tones analyses),
                 formality = Some (dominantFormality analyses),
                 humor = Some (js ''low'') \<rparr>,
             devices = Some
               \<lparr> metaphors = js_gt (metaphor (deviceFrequencies analyses)) (Num (1 / 100)),
                 similes = js_gt (simile (deviceFrequencies analyses)) (Num (1 / 100)),
                 alliteration = js_gt (deviceFrequencies.alliteration (deviceFrequencies analyses)) (Num (1 / 100)),
                 repetition = js_gt (deviceFrequencies.repetition (deviceFrequencies analyses)) (Num (1 / 100)),
                 avoid = None \<rparr>,
             comparable_authors = Some (authors analyses),
             user_comments = None \<rparr>))"

subsection \<open>The caller\<close>

text \<open>
  Steps 2 and 3 of \<^verbatim>\<open>createStyleProfile\<close>, once the analyses of the samples are fetched
  (the database calls around them are not modelled):
  \<^verbatim>\<open>
  try {
    ...
    if (analyses.length === 0) {
      throw new Error(`No style analyses found for the provided samples. Please analyze the samples first.`);
    }
    const styleParameters = combineMetrics(analyses);
    ...
  } catch (error) {
    throw new Error(`Failed to create style profile: ${error.message}`);
  }
  \<close>
\<close>

datatype error = Error jsstring

definition createStyleProfile_combine :: "analysis list \<Rightarrow> error + style_parameters option" where
  "createStyleProfile_combine analyses =
     (if length analyses = 0
      then Inl (Error (js ''Failed to create style profile: ''
             @ js ''No style analyses found for the provided samples. Please analyze the samples first.''))
      else Inr (combineMetrics analyses))"

section \<open>Style guidance formatter\<close>

text \<open>
  \<^verbatim>\<open>formatStyleGuidance\<close> starts from the title \<^verbatim>\<open>"# Style Guidance\n\n"\<close> and runs seven
  \<^verbatim>\<open>if\<close> blocks in a row, each of which appends the text of one section to
  \<^verbatim>\<open>guidance\<close>. Each block is a function here, from the property that it tests to the text
  that it appends.

  A numeric field read without a test behaves, when the property is absent, as it does
  for \<^verbatim>\<open>NaN\<close>: every comparison is false and \<^verbatim>\<open>Math.round\<close> gives \<^verbatim>\<open>NaN\<close>. An absent
  string is equal to no literal, like the empty string, and an absent flag is falsy like
  \<^verbatim>\<open>false\<close>.
\<close>

text \<open>
  \<^verbatim>\<open>
  if (styleParameters.sentence) {
    const sentenceLength = styleParameters.sentence.avg_length < 12 ? 'short' :
      styleParameters.sentence.avg_length < 20 ? 'moderate' : 'long';
    guidance += `## Sentence Structure\n`;
    guidance += `- Use predominantly ${sentenceLength} sentences (average ${Math.round(styleParameters.sentence.avg_length)} words per sentence)\n`;
    if (styleParameters.sentence.length_distribution) {
      guidance += `- Sentence variety: ${Math.round(styleParameters.sentence.length_distribution.short * 100)}% short, ${Math.round(styleParameters.sentence.length_distribution.medium * 100)}% medium, ${Math.round(styleParameters.sentence.length_distribution.long * 100)}% long\n`;
    }
    guidance += `- Complexity: ${styleParameters.sentence.complexity < 0.4 ? 'simple and direct' : styleParameters.sentence.complexity < 0.7 ? 'moderately complex' : 'complex with multiple clauses'}\n`;
    guidance += `- Question frequency: ${styleParameters.sentence.questions ? 'Include occasional questions' : 'Rarely use questions'}\n\n`;
  }
  \<close>
\<close>

definition percent :: "jsnum option \<Rightarrow> jsstring" where
  "percent x = num_to_string (js_round (js_mul (case x of None \<Rightarrow> NaN | Some v \<Rightarrow> v) (Num 100)))"

definition sentence_section :: "sentence_parameters option \<Rightarrow> jsstring" where
  "sentence_section x =
     (case x of
        None \<Rightarrow> []
      | Some s \<Rightarrow>
          (let sentenceLength =
                 (if js_lt (sentence_parameters.avg_length s) (Num 12) then js ''short''
                  else if js_lt (sentence_parameters.avg_length s) (Num 20) then js ''moderate''
                  else js ''long'')
           in js ''## Sentence Structure\<newline>''
              @ (js ''- Use predominantly '' @ sentenceLength @ js '' sentences (average ''
                 @ num_to_string (js_round (sentence_parameters.avg_length s))
                 @ js '' words per sentence)\<newline>'')
              @ (case sentence_parameters.length_distribution s of
                   None \<Rightarrow> []
                 | Some d \<Rightarrow>
                     js ''- Sentence variety: '' @ percent (length_distribution.short d)
                     @ js ''% short, '' @ percent (length_distribution.medium d)
                     @ js ''% medium, '' @ percent (length_distribution.long d)
                     @ js ''% long\<newline>'')
              @ (js ''- Complexity: ''
                 @ (if js_lt (complexity s) (Num (4 / 10)) then js ''simple and direct''
                    else if js_lt (complexity s) (Num (7 / 10)) then js ''moderately complex''
                    else js ''complex with multiple clauses'')
                 @ js ''\<newline>'')
              @ (js ''- Question frequency: ''
                 @ (if questions s then js ''Include occasional questions'' else js ''Rarely use questions'')
                 @ js ''\<newline>\<newline>'')))"

text \<open>
  \<^verbatim>\<open>
  if (styleParameters.vocabulary) {
    guidance += `## Vocabulary\n`;
    guidance += `- Lexical diversity: ${styleParameters.vocabulary.diversity < 0.4 ? 'Limited - use repetition and simple words' : styleParameters.vocabulary.diversity < 0.6 ? 'Moderate - mix familiar words with occasional distinctive ones' : 'High - use varied, precise vocabulary'}\n`;
    guidance += `- Formality: ${styleParameters.vocabulary.formality === 'formal' ? 'Formal academic tone' : styleParameters.vocabulary.formality === 'neutral' ? 'Balanced, professional tone' : 'Conversational, casual tone'}\n`;
    if (styleParameters.vocabulary.avoid) {
      guidance += `- Avoid these terms: ${styleParameters.vocabulary.avoid.join(', ')}\n`;
    }
    if (styleParameters.vocabulary.prefer) {
      guidance += `- Preferred terms: ${styleParameters.vocabulary.prefer.join(', ')}\n`;
    }
    guidance += '\n';
  }
  \<close>
\<close>

definition vocabulary_section :: "vocabulary_parameters option \<Rightarrow> jsstring" where
  "vocabulary_section x =
     (case x of
        None \<Rightarrow> []
      | Some v \<Rightarrow>
          js ''## Vocabulary\<newline>''
          @ (js ''- Lexical diversity: ''
             @ (if js_lt (diversity v) (Num (4 / 10)) then js ''Limited - use repetition and simple words''
                else if js_lt (diversity v) (Num (6 / 10))
                then js ''Moderate - mix familiar words with occasional distinctive ones''
                else js ''High - use varied, precise vocabulary'')
             @ js ''\<newline>'')
          @ (js ''- Formality: ''
             @ (if vocabulary_parameters.formality v = js ''formal'' then js ''Formal academic tone''
                else if vocabulary_parameters.formality v = js ''neutral'' then js ''Balanced, professional tone''
                else js ''Conversational, casual tone'')
             @ js ''\<newline>'')
          @ (case vocabulary_parameters.avoid v of
               None \<Rightarrow> []
             | Some terms \<Rightarrow> js ''- Avoid these terms: '' @ join (js '', '') terms @ js ''\<newline>'')
          @ (case prefer_terms v of
               None \<Rightarrow> []
             | Some terms \<Rightarrow> js ''- Preferred terms: '' @ join (js '', '') terms @ js ''\<newline>'')
          @ js ''\<newline>'')"

text \<open>
  \<^verbatim>\<open>
  if (styleParameters.narrative) {
    guidance += `## Narrative Approach\n`;
    guidance += `- Point of view: ${styleParameters.narrative.pov === 'first_person' ? 'First person' : styleParameters.narrative.pov === 'second_person' ? 'Second person' : 'Third person'}\n`;
    guidance += `- Tense: ${styleParameters.narrative.tense === 'present' ? 'Present tense' : 'Past tense'}\n`;
    guidance += `- Description vs. action balance: ${styleParameters.narrative.description_heavy ? 'Favor rich description' : 'Favor action and plot movement'}\n\n`;
  }
  \<close>
\<close>

definition pov_line :: "narrative_parameters \<Rightarrow> jsstring" where
  "pov_line n =
     js ''- Point of view: ''
     @ (if narrative_parameters.pov n = js ''first_person'' then js ''First person''
        else if narrative_parameters.pov n = js ''second_person'' then js ''Second person''
        else js ''Third person'')
     @ js ''\<newline>''"

definition tense_line :: "narrative_parameters \<Rightarrow> jsstring" where
  "tense_line n =
     js ''- Tense: ''
     @ (if narrative_parameters.tense n = js ''present'' then js ''Present tense'' else js ''Past tense'')
     @ js ''\<newline>''"

definition balance_line :: "narrative_parameters \<Rightarrow> jsstring" where
  "balance_line n =
     js ''- Description vs. action balance: ''
     @ (if description_heavy n then js ''Favor rich description'' else js ''Favor action and plot movement'')
     @ js ''\<newline>\<newline>''"

definition narrative_section :: "narrative_parameters option \<Rightarrow> jsstring" where
  "narrative_section x =
     (case x of
        None \<Rightarrow> []
      | Some n \<Rightarrow> js ''## Narrative Approach\<newline>'' @ pov_line n @ tense_line n @ balance_line n)"

text \<open>
  \<^verbatim>\<open>
  if (styleParameters.tone) {
    guidance += `## Tone\n`;
    if (styleParameters.tone.emotional && styleParameters.tone.emotional.length > 0) {
      guidance += `- Emotional tone: ${styleParameters.tone.emotional.join(', ')}\n`;
    }
    if (styleParameters.tone.formality) {
      guidance += `- Formality: ${styleParameters.tone.formality}\n`;
    }
    if (styleParameters.tone.humor) {
      guidance += `- Humor level: ${styleParameters.tone.humor === 'high' ? 'Include humor and wit' : styleParameters.tone.humor === 'medium' ? 'Occasional light humor' : 'Serious, minimal humor'}\n\n`;
    }
  }
  \<close>
\<close>

definition tone_section :: "tone_parameters option \<Rightarrow> jsstring" where
  "tone_section x =
     (case x of
        None \<Rightarrow> []
      | Some t \<Rightarrow>
          js ''## Tone\<newline>''
          @ (case emotional t of
               None \<Rightarrow> []
             | Some tags \<Rightarrow>
                 if length tags > 0 then js ''- Emotional tone: '' @ join (js '', '') tags @ js ''\<newline>''
                 else [])
          @ (if truthy_str (tone_parameters.formality t)
             then js ''- Formality: '' @ the (tone_parameters.formality t) @ js ''\<newline>''
             else [])
          @ (if truthy_str (humor t)
             then js ''- Humor level: ''
                  @ (if the (humor t) = js ''high'' then js ''Include humor and wit''
                     else if the (humor t) = js ''medium'' then js ''Occasional light humor''
                     else js ''Serious, minimal humor'')
                  @ js ''\<newline>\<newline>''
             else []))"

text \<open>
  \<^verbatim>\<open>
  if (styleParameters.devices) {
    guidance += `## Stylistic Devices\n`;
    const devices = [];
    if (styleParameters.devices.metaphors) devices.push('metaphors');
    if (styleParameters.devices.similes) devices.push('similes');
    if (styleParameters.devices.alliteration) devices.push('alliteration');
    if (styleParameters.devices.repetition) devices.push('repetition');
    if (devices.length > 0) {
      guidance += `- Use these devices: ${devices.join(', ')}\n`;
    }
    if (styleParameters.devices.avoid) {
      guidance += `- Avoid these devices: ${styleParameters.devices.avoid.join(', ')}\n`;
    }
    guidance += '\n';
  }
  \<close>
\<close>

definition devices_section :: "device_parameters option \<Rightarrow> jsstring" where
  "devices_section x =
     (case x of
        None \<Rightarrow> []
      | Some d \<Rightarrow>
          (let devices =
                 (if metaphors d then [js ''metaphors''] else [])
                 @ (if similes d then [js ''similes''] else [])
                 @ (if device_parameters.alliteration d then [js ''alliteration''] else [])
                 @ (if device_parameters.repetition d then [js ''repetition''] else [])
           in js ''## Stylistic Devices\<newline>''
              @ (if length devices > 0
                 then js ''- Use these devices: '' @ join (js '', '') devices @ js ''\<newline>''
                 else [])
              @ (case device_parameters.avoid d of
                   None \<Rightarrow> []
                 | Some ds \<Rightarrow> js ''- Avoid these devices: '' @ join (js '', '') ds @ js ''\<newline>'')
              @ js ''\<newline>''))"

text \<open>
  \<^verbatim>\<open>
  if (styleParameters.comparable_authors && styleParameters.comparable_authors.length > 0) {
    guidance += `## Similar Authors\n`;
    guidance += `- Emulate the style of: ${styleParameters.comparable_authors.join(', ')}\n\n`;
  }
  if (styleParameters.user_comments) {
    guidance += `## Additional Notes\n`;
    guidance += styleParameters.user_comments + '\n\n';
  }
  \<close>
\<close>

definition authors_section :: "jsstring list option \<Rightarrow> jsstring" where
  "authors_section x =
     (case x of
        None \<Rightarrow> []
      | Some names \<Rightarrow>
          if length names > 0
          then js ''## Similar Authors\<newline>''
               @ (js ''- Emulate the style of: '' @ join (js '', '') names @ js ''\<newline>\<newline>'')
          else [])"

definition comments_section :: "jsstring option \<Rightarrow> jsstring" where
  "comments_section x =
     (if truthy_str x then js ''## Additional Notes\<newline>'' @ (the x @ js ''\<newline>\<newline>'') else [])"

definition formatStyleGuidance :: "style_parameters \<Rightarrow> jsstring" where
  "formatStyleGuidance styleParameters =
     js ''# Style Guidance\<newline>\<newline>''
     @ sentence_section (sentence styleParameters)
     @ vocabulary_section (vocabulary styleParameters)
     @ narrative_section (narrative styleParameters)
     @ tone_section (tone styleParameters)
     @ devices_section (devices styleParameters)
     @ authors_section (style_parameters.comparable_authors styleParameters)
     @ comments_section (user_comments styleParameters)"

section \<open>Vocabulary of the properties\<close>







text \<open>
  The values of a categorical field that the bundles supply, in sequence order, and the
  mode as the specification words it: the value that occurs most often, the first such
  value in sequence order when several do, and the default when there is no value.
\<close>

definition supplied :: "(analysis \<Rightarrow> jsstring option) \<Rightarrow> analysis list \<Rightarrow> jsstring list" where
  "supplied field analyses = map (\<lambda>a. the (field a)) (filter (\<lambda>a. truthy_str (field a)) analyses)"

definition mode_first :: "'a \<Rightarrow> 'a list \<Rightarrow> 'a" where
  "mode_first d xs =
     (case find (\<lambda>x. \<forall>y \<in> set xs. count_list xs y \<le> count_list xs x) xs of
        None \<Rightarrow> d
      | Some x \<Rightarrow> x)"


definition empty_bundle :: analysis where
  "empty_bundle =
     \<lparr> sentence_metrics = None, vocabulary_metrics = None, narrative_characteristics = None,
       stylistic_devices = None, tone_attributes = None, comparable_authors = None \<rparr>"

definition pov_bundle :: "jsstring \<Rightarrow> analysis" where
  "pov_bundle p =
     empty_bundle \<lparr> narrative_characteristics := Some
       \<lparr> narrative_characteristics.pov = Some p, tense = None, description_density = None,
         action_to_reflection_ratio = None, show_vs_tell_balance = None \<rparr> \<rparr>"

text \<open>The three categorical fields of a bundle, read through the optional chain.\<close>

definition pov_of :: "analysis \<Rightarrow> jsstring option" where
  "pov_of a = Option.bind (narrative_characteristics a) narrative_characteristics.pov"

definition tense_of :: "analysis \<Rightarrow> jsstring option" where
  "tense_of a = Option.bind (narrative_characteristics a) narrative_characteristics.tense"

definition formality_level_of :: "analysis \<Rightarrow> jsstring option" where
  "formality_level_of a = Option.bind (tone_attributes a) formality_level"

text \<open>
  The whole words of a text as the specification counts them: the maximal runs of word
  characters. \<open>whole_word_count\<close> is the number of whole words that are one of the given
  words when the case of the letters is ignored.
\<close>

function word_runs :: "jsstring \<Rightarrow> jsstring list" where
  "word_runs [] = []"
| "word_runs (c # s) =
     (if is_word_char c then (c # takeWhile is_word_char s) # word_runs (dropWhile is_word_char s)
      else word_runs s)"
  by pat_completeness auto
termination
  by (relation "measure length") (auto intro: le_imp_less_Suc length_dropWhile_le)

definition whole_word_count :: "jsstring list \<Rightarrow> jsstring \<Rightarrow> nat" where
  "whole_word_count ws text =
     length (filter (\<lambda>run. map canonicalize run \<in> set (map (map canonicalize) ws)) (word_runs text))"

text \<open>
  The words of a text as the tone extractor's specification counts them: the maximal runs
  of characters that are no white space (a word keeps the punctuation that touches it).
  \<open>lexicon_count\<close> is the number of those words that are one of the words of a lexicon
  when the case of the letters is ignored.
\<close>

function tokens :: "jsstring \<Rightarrow> jsstring list" where
  "tokens [] = []"
| "tokens (c # s) =
     (if is_space c then tokens s
      else (c # takeWhile (\<lambda>x. \<not> is_space x) s) # tokens (dropWhile (\<lambda>x. \<not> is_space x) s))"
  by pat_completeness auto
termination
  by (relation "measure length") (auto intro: le_imp_less_Suc length_dropWhile_le)

definition lexicon_count :: "jsstring list \<Rightarrow> jsstring \<Rightarrow> nat" where
  "lexicon_count ws text =
     length (filter (\<lambda>token. map canonicalize token \<in> set (map (map canonicalize) ws)) (tokens text))"




section \<open>Properties of the sentence metrics\<close>

lemma ratio_or_zero:
  "js_or (js_div (num_of_nat k) (num_of_nat n)) (Num 0)
     = (if n = 0 then (if k = 0 then Num 0 else PInf) else Num (rat_of_nat k / rat_of_nat n))"
  by (simp add: js_or_def truthy_num_def num_of_nat_def)

lemma ratio_or_zero_bounded:
  "k \<le> n \<Longrightarrow> js_or (js_div (num_of_nat k) (num_of_nat n)) (Num 0) = Num (rat_of_nat k / rat_of_nat n)"
  by (simp add: ratio_or_zero)

lemma length_classes:
  "length (filter (\<lambda>len. len \<le> 10) (xs :: nat list))
     + length (filter (\<lambda>len. len > 10 \<and> len \<le> 20) xs)
     + length (filter (\<lambda>len. len > 20) xs) = length xs"
  by (induction xs) auto

lemma foldl_plus_nat: "foldl (\<lambda>sum len. sum + len) (a :: nat) xs = a + sum_list xs"
  by (induction xs arbitrary: a) auto

text \<open>
  What holds of the sentence metrics for every text, \<open>n\<close> being the number of sentences:
  all fields but the question frequency are finite and not negative, the three fractions
  add up to 1 when there is a sentence and are 0 when there is none, and the question
  frequency is the number of question marks over \<open>n\<close>, which is infinite when the text
  has a question mark and no sentence.
\<close>

lemma calculateSentenceMetrics_fields:
  fixes t :: jsstring
  defines "n \<equiv> length (sentences_of t)"
  defines "q \<equiv> length (filter (\<lambda>c. c = question_mark) t)"
  shows "\<exists>a s m l c f.
      sentence_metrics.avg_length (calculateSentenceMetrics t) = Some (Num a) \<and> 0 \<le> a
    \<and> sentence_metrics.length_distribution (calculateSentenceMetrics t)
        = Some \<lparr> length_distribution.short = Some (Num s), medium = Some (Num m), long = Some (Num l) \<rparr>
    \<and> 0 \<le> s \<and> 0 \<le> m \<and> 0 \<le> l \<and> s + m + l = (if n = 0 then 0 else 1)
    \<and> complexity_score (calculateSentenceMetrics t) = Some (Num c) \<and> 0 \<le> c \<and> c \<le> 1
    \<and> fragment_frequency (calculateSentenceMetrics t) = Some (Num f) \<and> 0 \<le> f \<and> f \<le> 1
    \<and> (n = 0 \<longrightarrow> a = 0 \<and> c = 0 \<and> f = 0)
    \<and> question_frequency (calculateSentenceMetrics t)
        = Some (if n = 0 then (if q = 0 then Num 0 else PInf) else Num (rat_of_nat q / rat_of_nat n))"
proof -
  define lens where "lens = map (\<lambda>sentence. length (words_of sentence)) (sentences_of t)"
  define total where "total = sum_list lens"
  define ks km kl kf where "ks = length (filter (\<lambda>len. len \<le> 10) lens)"
    and "km = length (filter (\<lambda>len. len > 10 \<and> len \<le> 20) lens)"
    and "kl = length (filter (\<lambda>len. len > 20) lens)"
    and "kf = length (filter (\<lambda>s. length (words_of s) < 5) (sentences_of t))"
  have len: "length lens = n" by (simp add: lens_def n_def)
  have sum3: "ks + km + kl = n"
    unfolding ks_def km_def kl_def using length_classes [of lens] len by simp
  have ks: "ks \<le> n" and km: "km \<le> n" and kl: "kl \<le> n" using sum3 by simp_all
  have kf: "kf \<le> n" by (simp add: kf_def n_def)
  have total0: "n = 0 \<Longrightarrow> total = 0" using len by (simp add: total_def)
  define a where "a = rat_of_nat total / rat_of_nat n"
  have avg: "js_or (js_div (num_of_nat total) (num_of_nat n)) (Num 0) = Num a"
    using total0 by (cases "n = 0") (simp_all add: ratio_or_zero a_def)
  have a0: "0 \<le> a" by (simp add: a_def)
  define c where "c = (if a / 25 < 1 then a / 25 else 1)"
  have cplx: "js_min (Num 1) (js_div (Num a) (Num 25)) = Num c"
    by (simp add: js_min_def c_def)
  have c01: "0 \<le> c" "c \<le> 1" using a0 by (simp_all add: c_def)
  have E: "calculateSentenceMetrics t =
      \<lparr> sentence_metrics.avg_length = Some (Num a),
        length_distribution = Some
          \<lparr> length_distribution.short = Some (Num (rat_of_nat ks / rat_of_nat n)),
            medium = Some (Num (rat_of_nat km / rat_of_nat n)),
            long = Some (Num (rat_of_nat kl / rat_of_nat n)) \<rparr>,
        complexity_score = Some (Num c),
        question_frequency = Some
          (if n = 0 then (if q = 0 then Num 0 else PInf) else Num (rat_of_nat q / rat_of_nat n)),
        fragment_frequency = Some (Num (rat_of_nat kf / rat_of_nat n)) \<rparr>"
    unfolding calculateSentenceMetrics_def Let_def foldl_plus_nat
      lens_def [symmetric] n_def [symmetric] q_def [symmetric]
      ks_def [symmetric] km_def [symmetric] kl_def [symmetric] kf_def [symmetric]
    using avg cplx ratio_or_zero_bounded [OF ks] ratio_or_zero_bounded [OF km]
      ratio_or_zero_bounded [OF kl] ratio_or_zero_bounded [OF kf] ratio_or_zero [of q n]
    by (simp add: total_def)
  have fr: "rat_of_nat ks / rat_of_nat n + rat_of_nat km / rat_of_nat n + rat_of_nat kl / rat_of_nat n
      = (if n = 0 then 0 else 1)"
  proof -
    have "rat_of_nat ks / rat_of_nat n + rat_of_nat km / rat_of_nat n + rat_of_nat kl / rat_of_nat n
        = rat_of_nat (ks + km + kl) / rat_of_nat n"
      by (simp add: add_divide_distrib)
    then show ?thesis using sum3 by simp
  qed
  have f1: "rat_of_nat kf / rat_of_nat n \<le> 1" using kf by (cases "n = 0") (simp_all add: divide_le_eq_1)
  have zero: "n = 0 \<longrightarrow> a = 0 \<and> c = 0 \<and> rat_of_nat kf / rat_of_nat n = 0"
    by (simp add: a_def c_def)
  show ?thesis
    unfolding E using a0 c01 fr f1 zero by simp
qed

text \<open>
  C1. The text \<^verbatim>\<open>"?"\<close> has no sentence and one question mark: its question frequency is
  \<^verbatim>\<open>1 / 0 || 0\<close>, which is \<^verbatim>\<open>Infinity\<close>, neither finite nor 0.
\<close>

theorem calculateSentenceMetrics_question_only:
  "sentences_of (js ''?'') = []
   \<and> question_frequency (calculateSentenceMetrics (js ''?'')) = Some PInf"
  by (simp add: calculateSentenceMetrics_def sentences_of_def js_def sentence_end_def trim_def
        question_mark_def num_of_nat_def js_or_def truthy_num_def Let_def)

section \<open>Properties of the excerpt builder\<close>

lemma lastIndexOf_absent: "c \<notin> set s \<Longrightarrow> lastIndexOf s c = - 1"
  by (simp add: lastIndexOf_def)

lemma length_takeWhile_neq_less:
  "c \<in> set r \<Longrightarrow> length (takeWhile (\<lambda>x. x \<noteq> c) r) < length r"
  by (induction r) auto

lemma nth_before_takeWhile:
  assumes "i < length (takeWhile P r)"
  shows "P (r ! i)"
proof -
  have "takeWhile P r ! i \<in> set (takeWhile P r)" using assms by simp
  then have "P (takeWhile P r ! i)" by (blast dest: set_takeWhileD)
  then show ?thesis using assms by (simp add: takeWhile_nth)
qed

lemma lastIndexOf_present:
  assumes "c \<in> set s"
  shows "\<exists>j < length s. lastIndexOf s c = int j \<and> s ! j = c
           \<and> (\<forall>k. j < k \<and> k < length s \<longrightarrow> s ! k \<noteq> c)"
proof -
  define r where "r = rev s"
  define n where "n = length (takeWhile (\<lambda>x. x \<noteq> c) r)"
  have len: "length r = length s" by (simp add: r_def)
  have n_lt: "n < length s"
    using assms length_takeWhile_neq_less [of c r] by (simp add: n_def r_def)
  have at_n: "r ! n = c"
    using nth_length_takeWhile [of "\<lambda>x. x \<noteq> c" r] n_lt len by (simp add: n_def)
  have before_n: "r ! i \<noteq> c" if "i < n" for i
    using that nth_before_takeWhile [of i "\<lambda>x. x \<noteq> c" r] by (simp add: n_def)
  define j where "j = length s - Suc n"
  have j_lt: "j < length s" using n_lt by (simp add: j_def)
  have idx: "lastIndexOf s c = int j"
    using assms n_lt by (simp add: lastIndexOf_def j_def n_def r_def)
  have at_j: "s ! j = c"
    using at_n n_lt by (simp add: r_def rev_nth j_def)
  have after_j: "s ! k \<noteq> c" if "j < k" "k < length s" for k
  proof -
    have i: "length s - Suc k < n" using that n_lt by (auto simp: j_def)
    have "r ! (length s - Suc k) = s ! k"
      using that by (simp add: r_def rev_nth)
    with before_n [OF i] show ?thesis by simp
  qed
  show ?thesis using j_lt idx at_j after_j by blast
qed

text \<open>
  C5. The excerpt is built from the first 200 code units. When that slice holds a period
  at an index above 100, the result is the slice cut after its last period (which then lies
  above index 100); otherwise the result is the slice, however short, followed by
  \<^verbatim>\<open>...\<close>. 300 letters A give 200 letters A and the ellipsis.
\<close>

theorem createExcerpt_spec:
  "((\<exists>i. 100 < i \<and> i < length (take 200 text) \<and> take 200 text ! i = period) \<longrightarrow>
      (\<exists>j. 100 < j \<and> j < length (take 200 text) \<and> take 200 text ! j = period
          \<and> (\<forall>k. j < k \<and> k < length (take 200 text) \<longrightarrow> take 200 text ! k \<noteq> period)
          \<and> createExcerpt text = take (Suc j) (take 200 text)))
   \<and> (\<not> (\<exists>i. 100 < i \<and> i < length (take 200 text) \<and> take 200 text ! i = period) \<longrightarrow>
        createExcerpt text = take 200 text @ js ''...'')
   \<and> createExcerpt (replicate 300 (of_char CHR ''A''))
        = replicate 200 (of_char CHR ''A'') @ js ''...''"
proof (intro conjI impI)
  define ex where "ex = take 200 text"
  {
    assume "\<exists>i. 100 < i \<and> i < length (take 200 text) \<and> take 200 text ! i = period"
    then obtain i where i: "100 < i" "i < length ex" "ex ! i = period"
      by (auto simp: ex_def)
    then have "period \<in> set ex" by (metis nth_mem)
    from lastIndexOf_present [OF this] obtain j where
      j: "j < length ex" "lastIndexOf ex period = int j" "ex ! j = period"
         "\<forall>k. j < k \<and> k < length ex \<longrightarrow> ex ! k \<noteq> period"
      by blast
    have "i \<le> j" using i j(4) by (meson not_le_imp_less)
    then have big: "100 < j" using i(1) by simp
    have "createExcerpt text = take (Suc j) ex"
      using big j(2) by (simp add: createExcerpt_def ex_def Let_def nat_add_distrib)
    then show "\<exists>j. 100 < j \<and> j < length (take 200 text) \<and> take 200 text ! j = period
          \<and> (\<forall>k. j < k \<and> k < length (take 200 text) \<longrightarrow> take 200 text ! k \<noteq> period)
          \<and> createExcerpt text = take (Suc j) (take 200 text)"
      using big j by (auto simp: ex_def)
  }
  {
    assume none: "\<not> (\<exists>i. 100 < i \<and> i < length (take 200 text) \<and> take 200 text ! i = period)"
    have "\<not> lastIndexOf ex period > 100"
    proof (cases "period \<in> set ex")
      case False
      then show ?thesis by (simp add: lastIndexOf_absent)
    next
      case True
      from lastIndexOf_present [OF this] obtain j where
        j: "j < length ex" "lastIndexOf ex period = int j" "ex ! j = period"
        by blast
      with none have "\<not> 100 < j" by (auto simp: ex_def)
      with j(2) show ?thesis by simp
    qed
    then show "createExcerpt text = take 200 text @ js ''...''"
      by (simp add: createExcerpt_def ex_def Let_def)
  }
  show "createExcerpt (replicate 300 (of_char CHR ''A''))
        = replicate 200 (of_char CHR ''A'') @ js ''...''"
  proof -
    have "period \<notin> set (take 200 (replicate 300 (of_char CHR ''A'')))"
      by (simp add: period_def)
    then show ?thesis
      by (simp add: createExcerpt_def Let_def lastIndexOf_absent)
  qed
qed

text \<open>
  A text with its only period at index 150, and the short text \<^verbatim>\<open>Short sentence.\<close>, which
  gets the ellipsis behind its own period.
\<close>

theorem createExcerpt_spec_witness:
  "(\<exists>i. 100 < i \<and> i < length (take 200 (replicate 150 65 @ [period] @ replicate 100 66))
        \<and> take 200 (replicate 150 65 @ [period] @ replicate 100 66) ! i = period)
   \<and> createExcerpt (replicate 150 65 @ [period] @ replicate 100 66) = replicate 150 65 @ [period]
   \<and> \<not> (\<exists>i. 100 < i \<and> i < length (take 200 (js ''Short sentence.''))
        \<and> take 200 (js ''Short sentence.'') ! i = period)
   \<and> createExcerpt (js ''Short sentence.'') = js ''Short sentence....''"
proof -
  define t where "t = replicate 150 (65::nat) @ [period] @ replicate 100 66"
  have h: "\<exists>i. 100 < i \<and> i < length (take 200 t) \<and> take 200 t ! i = period"
    by (rule exI [of _ 150]) (simp add: t_def nth_append)
  from createExcerpt_spec [of t] h obtain j where
    j: "100 < j" "j < length (take 200 t)" "take 200 t ! j = period"
       "createExcerpt t = take (Suc j) (take 200 t)"
    by blast
  have "j = 150"
  proof (rule ccontr)
    assume "j \<noteq> 150"
    with j(2,3) show False
      by (auto simp: t_def nth_append period_def nth_Cons' split: if_splits)
  qed
  with j(4) have r1: "createExcerpt t = replicate 150 65 @ [period]"
    by (simp add: t_def)
  have n: "\<not> (\<exists>i. 100 < i \<and> i < length (take 200 (js ''Short sentence.''))
        \<and> take 200 (js ''Short sentence.'') ! i = period)"
    by (simp add: js_def)
  with createExcerpt_spec [of "js ''Short sentence.''"]
  have r2: "createExcerpt (js ''Short sentence.'') = js ''Short sentence....''"
    by (simp add: js_def)
  show ?thesis using h r1 n r2 by (simp add: t_def)
qed

section \<open>Properties of the narrative and tone extractors\<close>

lemma js_literals_distinct:
  "js ''first_person'' \<noteq> js ''third_person''" "js ''first_person'' \<noteq> js ''unknown''"
  "js ''third_person'' \<noteq> js ''unknown''" "js ''present'' \<noteq> js ''past''"
  "js ''present'' \<noteq> js ''unknown''" "js ''past'' \<noteq> js ''unknown''"
  "js ''optimistic'' \<noteq> js ''pessimistic''" "js ''optimistic'' \<noteq> js ''neutral''"
  "js ''pessimistic'' \<noteq> js ''neutral''" "js ''formal'' \<noteq> js ''casual''"
  by (simp_all add: js_def)

lemma present_gt:
  "js_gt (num_of_nat p) (js_mul (num_of_nat q) (Num (15 / 10)))
     = (rat_of_nat p > 15 / 10 * rat_of_nat q)"
  by (simp add: js_gt_def num_of_nat_def mult.commute)

lemma present_excludes_past:
  "rat_of_nat p > 15 / 10 * rat_of_nat q \<Longrightarrow> \<not> q > p"
proof
  assume a: "rat_of_nat p > 15 / 10 * rat_of_nat q" and b: "q > p"
  from b have "rat_of_nat q > rat_of_nat p" by simp
  with a show False by simp
qed

subsection \<open>The matcher counts whole words\<close>

lemma is_word_char_canonicalize: "is_word_char (canonicalize c) = is_word_char c"
proof (cases "97 \<le> c \<and> c \<le> 122")
  case True
  then have "65 \<le> c - 32 \<and> c - 32 \<le> 90" by arith
  with True show ?thesis by (simp add: is_word_char_def canonicalize_def)
next
  case False
  then have "canonicalize c = c" unfolding canonicalize_def by (rule if_not_P)
  then show ?thesis by simp
qed

lemma canonicalize_eq_word: "canonicalize a = canonicalize b \<Longrightarrow> is_word_char a = is_word_char b"
  by (metis is_word_char_canonicalize)

lemma match_literal_prefix:
  "match_literal alt s = Some rest \<Longrightarrow>
   \<exists>m. s = m @ rest \<and> length m = length alt \<and> map canonicalize m = map canonicalize alt"
proof (induction alt arbitrary: s)
  case Nil
  then have "s = [] @ rest" by simp
  then show ?case by simp
next
  case (Cons a alt)
  from Cons.prems obtain c s' where s: "s = c # s'" by (cases s) simp_all
  from Cons.prems s have c: "canonicalize a = canonicalize c" and r: "match_literal alt s' = Some rest"
    by (simp_all split: if_splits)
  from Cons.IH [OF r] obtain m where
    m: "s' = m @ rest" "length m = length alt" "map canonicalize m = map canonicalize alt"
    by blast
  have "s = (c # m) @ rest \<and> length (c # m) = length (a # alt)
      \<and> map canonicalize (c # m) = map canonicalize (a # alt)"
    using s m c by simp
  then show ?case by (rule exI)
qed

lemma match_literal_matches:
  "length m = length alt \<Longrightarrow> map canonicalize m = map canonicalize alt \<Longrightarrow>
   match_literal alt (m @ rest) = Some rest"
proof (induction alt arbitrary: m)
  case Nil
  then show ?case by simp
next
  case (Cons a alt)
  from Cons.prems(1) obtain c m' where m: "m = c # m'" by (cases m) simp_all
  with Cons.prems have "canonicalize a = canonicalize c" "length m' = length alt"
    "map canonicalize m' = map canonicalize alt" by simp_all
  then show ?case using m Cons.IH [of m'] by simp
qed

lemma match_literal_Some:
  "(match_literal alt s = Some rest)
     = (\<exists>m. s = m @ rest \<and> length m = length alt \<and> map canonicalize m = map canonicalize alt)"
proof
  assume "match_literal alt s = Some rest"
  then show "\<exists>m. s = m @ rest \<and> length m = length alt \<and> map canonicalize m = map canonicalize alt"
    by (rule match_literal_prefix)
next
  assume "\<exists>m. s = m @ rest \<and> length m = length alt \<and> map canonicalize m = map canonicalize alt"
  then obtain m where "s = m @ rest" "length m = length alt" "map canonicalize m = map canonicalize alt"
    by blast
  then show "match_literal alt s = Some rest" using match_literal_matches by simp
qed

lemma canonical_words:
  assumes "map canonicalize m = map canonicalize alt" and "\<forall>a \<in> set alt. is_word_char a"
  shows "\<forall>c \<in> set m. is_word_char c"
proof
  fix c assume "c \<in> set m"
  then obtain i where i: "i < length m" "m ! i = c" by (auto simp: in_set_conv_nth)
  have len: "length m = length alt" using assms(1) by (metis length_map)
  have "canonicalize (m ! i) = canonicalize (alt ! i)"
    using assms(1) i(1) len by (metis nth_map)
  moreover have "is_word_char (alt ! i)" using assms(2) i(1) len by simp
  ultimately show "is_word_char c" using i(2) canonicalize_eq_word by blast
qed

lemma run_prefix:
  assumes eq: "w @ r = m @ rest"
    and w: "\<forall>c \<in> set w. is_word_char c" and m: "\<forall>c \<in> set m. is_word_char c"
    and r: "r = [] \<or> \<not> is_word_char (hd r)"
  shows "(rest = [] \<or> \<not> is_word_char (hd rest)) = (m = w)"
proof
  assume "m = w"
  with eq r show "rest = [] \<or> \<not> is_word_char (hd rest)" by simp
next
  assume b: "rest = [] \<or> \<not> is_word_char (hd rest)"
  from eq consider u where "w = m @ u" "rest = u @ r" | u where "m = w @ u" "r = u @ rest"
    by (auto simp: append_eq_append_conv2)
  then show "m = w"
  proof cases
    case 1
    show ?thesis
    proof (cases u)
      case Nil
      with 1 show ?thesis by simp
    next
      case (Cons x u')
      with 1 have "hd rest = x" "rest \<noteq> []" "x \<in> set w" by simp_all
      with b w show ?thesis by auto
    qed
  next
    case 2
    show ?thesis
    proof (cases u)
      case Nil
      with 2 show ?thesis by simp
    next
      case (Cons x u')
      with 2 have "hd r = x" "r \<noteq> []" "x \<in> set m" by simp_all
      with r m show ?thesis by auto
    qed
  qed
qed

lemma match_alternatives_run:
  assumes ok: "\<forall>alt \<in> set alts. alt \<noteq> [] \<and> (\<forall>a \<in> set alt. is_word_char a)"
    and w: "\<forall>c \<in> set w. is_word_char c"
    and r: "r = [] \<or> \<not> is_word_char (hd r)"
  shows "match_alternatives alts prev (w @ r) =
     (if map canonicalize w \<in> set (map (map canonicalize) alts) then Some (length w) else None)"
  using ok
proof (induction alts)
  case Nil
  show ?case by simp
next
  case (Cons alt alts)
  have alt: "alt \<noteq> []" "\<forall>a \<in> set alt. is_word_char a" using Cons.prems by simp_all
  have IH: "match_alternatives alts prev (w @ r) =
     (if map canonicalize w \<in> set (map (map canonicalize) alts) then Some (length w) else None)"
    using Cons by simp
  show ?case
  proof (cases "match_literal alt (w @ r)")
    case None
    have "map canonicalize w \<noteq> map canonicalize alt"
    proof
      assume e: "map canonicalize w = map canonicalize alt"
      then have "length w = length alt" by (metis length_map)
      with e have "match_literal alt (w @ r) = Some r"
        unfolding match_literal_Some by blast
      with None show False by simp
    qed
    then show ?thesis using None IH by auto
  next
    case (Some rest)
    then obtain m where m: "w @ r = m @ rest" "length m = length alt"
      "map canonicalize m = map canonicalize alt"
      unfolding match_literal_Some by blast
    have mw: "\<forall>c \<in> set m. is_word_char c" by (rule canonical_words [OF m(3) alt(2)])
    have mne: "m \<noteq> []" using m(2) alt(1) by auto
    have "(w @ r) ! (length alt - 1) = m ! (length m - 1)"
      unfolding m(1) m(2) [symmetric] using mne by (simp add: nth_append)
    also have "\<dots> = last m" using mne by (simp add: last_conv_nth)
    finally have lastc: "is_word_char ((w @ r) ! (length alt - 1))"
      using mw mne by simp
    have bnd: "word_boundary (if alt = [] then prev else Some ((w @ r) ! (length alt - 1)))
         (case rest of [] \<Rightarrow> None | c # _ \<Rightarrow> Some c)
        = (rest = [] \<or> \<not> is_word_char (hd rest))"
      using alt(1) lastc by (cases rest) (simp_all add: word_boundary_def)
    have same: "(rest = [] \<or> \<not> is_word_char (hd rest)) = (m = w)"
      by (rule run_prefix [OF m(1) w mw r])
    show ?thesis
    proof (cases "m = w")
      case True
      then show ?thesis using Some bnd same m(2,3) by simp
    next
      case False
      have "map canonicalize w \<noteq> map canonicalize alt"
      proof
        assume e: "map canonicalize w = map canonicalize alt"
        then have "length w = length m" using m(2) by (metis length_map)
        with m(1) have "m = w" by simp
        with False show False by simp
      qed
      then show ?thesis using Some bnd same False IH by auto
    qed
  qed
qed

lemma match_alternatives_nonword:
  assumes "\<forall>alt \<in> set alts. alt \<noteq> [] \<and> (\<forall>a \<in> set alt. is_word_char a)"
    and "\<not> is_word_char c"
  shows "match_alternatives alts prev (c # s) = None"
  using assms(1)
proof (induction alts)
  case Nil
  show ?case by simp
next
  case (Cons alt alts)
  then obtain a alt' where a: "alt = a # alt'" "is_word_char a" by (cases alt) auto
  have "canonicalize a \<noteq> canonicalize c"
    using a(2) assms(2) canonicalize_eq_word by blast
  then show ?case using Cons a by simp
qed

lemma count_matches_skip:
  "count_matches alts (length u) p (u @ r)
     = count_matches alts 0 (if u = [] then p else Some (last u)) r"
  by (induction u arbitrary: p) simp_all

lemma count_matches_inside:
  "is_word_char p \<Longrightarrow> \<forall>c \<in> set u. is_word_char c \<Longrightarrow>
   count_matches alts 0 (Some p) (u @ r) = count_matches alts 0 (Some (last (p # u))) r"
  by (induction u arbitrary: p) (simp_all add: word_boundary_def)

lemma count_matches_whole_words:
  assumes ok: "\<forall>alt \<in> set alts. alt \<noteq> [] \<and> (\<forall>a \<in> set alt. is_word_char a)"
  shows "(case prev of None \<Rightarrow> True | Some p \<Rightarrow> \<not> is_word_char p)
           \<or> (case s of [] \<Rightarrow> True | c # _ \<Rightarrow> \<not> is_word_char c)
         \<Longrightarrow> count_matches alts 0 prev s = whole_word_count alts s"
proof (induction s arbitrary: prev rule: word_runs.induct)
  case 1
  show ?case by (simp add: whole_word_count_def)
next
  case (2 c s)
  show ?case
  proof (cases "is_word_char c")
    case False
    have "count_matches alts 0 prev (c # s) = count_matches alts 0 (Some c) s"
      using match_alternatives_nonword [OF ok False] by simp
    also have "\<dots> = whole_word_count alts s"
      using False by (intro "2.IH"(2)) simp_all
    finally show ?thesis using False by (simp add: whole_word_count_def)
  next
    case True
    define u where "u = takeWhile is_word_char s"
    define r where "r = dropWhile is_word_char s"
    have s: "s = u @ r" by (simp add: u_def r_def)
    have u: "\<forall>x \<in> set u. is_word_char x" by (auto simp: u_def dest: set_takeWhileD)
    have r: "r = [] \<or> \<not> is_word_char (hd r)"
      unfolding r_def by (metis hd_dropWhile)
    have prev: "(case prev of None \<Rightarrow> True | Some p \<Rightarrow> \<not> is_word_char p)"
      using "2.prems" True by simp
    have bnd: "word_boundary prev (Some c)"
      using prev True by (cases prev) (simp_all add: word_boundary_def)
    have w: "\<forall>x \<in> set (c # u). is_word_char x" using True u by simp
    have ma: "match_alternatives alts prev (c # s) =
        (if map canonicalize (c # u) \<in> set (map (map canonicalize) alts)
         then Some (length (c # u)) else None)"
      using match_alternatives_run [OF ok w r, of prev] s by simp
    have rest: "count_matches alts 0 p r = whole_word_count alts r" for p
      using r by (intro "2.IH"(1) [OF True, folded r_def]) (cases r; simp)
    have runs: "word_runs (c # s) = (c # u) # word_runs r"
      using True by (simp add: u_def r_def)
    show ?thesis
    proof (cases "map canonicalize (c # u) \<in> set (map (map canonicalize) alts)")
      case True
      have "count_matches alts 0 prev (c # s) = Suc (count_matches alts (length u) (Some c) (u @ r))"
        using bnd ma True s by simp
      also have "\<dots> = Suc (whole_word_count alts r)"
        unfolding count_matches_skip rest by (rule refl)
      finally show ?thesis using True runs by (simp add: whole_word_count_def)
    next
      case False
      have "count_matches alts 0 prev (c # s) = count_matches alts 0 (Some c) (u @ r)"
        using bnd ma False s by simp
      also have "\<dots> = whole_word_count alts r"
        unfolding count_matches_inside [OF \<open>is_word_char c\<close> u] rest by (rule refl)
      finally show ?thesis using False runs by (simp add: whole_word_count_def)
    qed
  qed
qed

lemma indicators_whole_words:
  "firstPersonIndicators t
     = whole_word_count (map js [''I'', ''me'', ''my'', ''mine'', ''we'', ''us'', ''our'', ''ours'']) t"
  "thirdPersonIndicators t
     = whole_word_count (map js [''he'', ''him'', ''his'', ''she'', ''her'', ''hers'', ''they'', ''them'',
         ''their'', ''theirs'']) t"
  "presentTenseIndicators t
     = whole_word_count (map js [''is'', ''are'', ''am'', ''being'', ''do'', ''does'', ''has'', ''have'']) t"
  "pastTenseIndicators t = whole_word_count (map js [''was'', ''were'', ''had'', ''did'']) t"
  unfolding firstPersonIndicators_def thirdPersonIndicators_def presentTenseIndicators_def
    pastTenseIndicators_def
  by (rule count_matches_whole_words; simp add: js_def is_word_char_def)+


subsection \<open>Decisions\<close>

text \<open>
  C6. The point of view is \<^verbatim>\<open>first_person\<close> exactly when the first-person count exceeds
  twice the third-person count, \<^verbatim>\<open>third_person\<close> exactly when that fails and the
  third-person count exceeds the first-person count, and \<^verbatim>\<open>unknown\<close> otherwise. The tense
  is \<^verbatim>\<open>present\<close> exactly when the present count exceeds 1.5 times the past count,
  \<^verbatim>\<open>past\<close> exactly when that fails and the past count exceeds the present count, and
  \<^verbatim>\<open>unknown\<close> otherwise. Each count, computed by the matcher, is the number of whole
  words of the text that are one of the words of its set when case is ignored.
\<close>

theorem analyzeNarrativeCharacteristics_decision:
  "((narrative_characteristics.pov (analyzeNarrativeCharacteristics text) = Some (js ''first_person''))
      = (firstPersonIndicators text > 2 * thirdPersonIndicators text)
   \<and> (narrative_characteristics.pov (analyzeNarrativeCharacteristics text) = Some (js ''third_person''))
      = (thirdPersonIndicators text > firstPersonIndicators text
         \<and> \<not> firstPersonIndicators text > 2 * thirdPersonIndicators text)
   \<and> (narrative_characteristics.pov (analyzeNarrativeCharacteristics text) = Some (js ''unknown''))
      = (\<not> firstPersonIndicators text > 2 * thirdPersonIndicators text
         \<and> \<not> thirdPersonIndicators text > firstPersonIndicators text)
   \<and> (narrative_characteristics.tense (analyzeNarrativeCharacteristics text) = Some (js ''present''))
      = (rat_of_nat (presentTenseIndicators text) > 15 / 10 * rat_of_nat (pastTenseIndicators text))
   \<and> (narrative_characteristics.tense (analyzeNarrativeCharacteristics text) = Some (js ''past''))
      = (pastTenseIndicators text > presentTenseIndicators text
         \<and> \<not> rat_of_nat (presentTenseIndicators text) > 15 / 10 * rat_of_nat (pastTenseIndicators text))
   \<and> (narrative_characteristics.tense (analyzeNarrativeCharacteristics text) = Some (js ''unknown''))
      = (\<not> rat_of_nat (presentTenseIndicators text) > 15 / 10 * rat_of_nat (pastTenseIndicators text)
         \<and> \<not> pastTenseIndicators text > presentTenseIndicators text))
   \<and> firstPersonIndicators text
       = whole_word_count (map js [''I'', ''me'', ''my'', ''mine'', ''we'', ''us'', ''our'', ''ours'']) text
   \<and> thirdPersonIndicators text
       = whole_word_count (map js [''he'', ''him'', ''his'', ''she'', ''her'', ''hers'', ''they'', ''them'',
           ''their'', ''theirs'']) text
   \<and> presentTenseIndicators text
       = whole_word_count (map js [''is'', ''are'', ''am'', ''being'', ''do'', ''does'', ''has'', ''have'']) text
   \<and> pastTenseIndicators text = whole_word_count (map js [''was'', ''were'', ''had'', ''did'']) text"
  (is "?D \<and> ?W")
proof -
  define fp tp pr pa where "fp = firstPersonIndicators text" and "tp = thirdPersonIndicators text"
    and "pr = presentTenseIndicators text" and "pa = pastTenseIndicators text"
  define present where "present = (rat_of_nat pr > 15 / 10 * rat_of_nat pa)"
  have pov: "narrative_characteristics.pov (analyzeNarrativeCharacteristics text) =
      Some (if fp > tp * 2 then js ''first_person'' else if tp > fp then js ''third_person''
            else js ''unknown'')"
    unfolding analyzeNarrativeCharacteristics_def fp_def tp_def by simp
  have tense: "narrative_characteristics.tense (analyzeNarrativeCharacteristics text) =
      Some (if present then js ''present'' else if pa > pr then js ''past'' else js ''unknown'')"
    unfolding analyzeNarrativeCharacteristics_def present_gt present_def pr_def pa_def by simp
  have excl: "present \<Longrightarrow> \<not> pa > pr"
    unfolding present_def by (rule present_excludes_past)
  have p: ?D if "present"
    using that excl unfolding pov tense fp_def [symmetric] tp_def [symmetric]
      pr_def [symmetric] pa_def [symmetric] present_def [symmetric]
    by (auto simp: js_literals_distinct js_literals_distinct [symmetric])
  have q: ?D if "\<not> present"
    using that unfolding pov tense fp_def [symmetric] tp_def [symmetric]
      pr_def [symmetric] pa_def [symmetric] present_def [symmetric]
    by (auto simp: js_literals_distinct js_literals_distinct [symmetric])
  from p q have D: ?D by blast
  have W: ?W by (intro conjI indicators_whole_words)
  from D W show ?thesis by (rule conjI)
qed

lemma ex_tone_words:
  "tone_words (js ''I love my garden. It is beautiful and I am happy every day.'')
     = map js [''i'', ''love'', ''my'', ''garden.'', ''it'', ''is'', ''beautiful'', ''and'', ''i'', ''am'',
         ''happy'', ''every'', ''day.'']"
  by (simp add: tone_words_def words_of_def toLowerCase_def js_def is_space_def)

lemma ex_tone_counts:
  "positiveCount (js ''I love my garden. It is beautiful and I am happy every day.'') = 2"
  "negativeCount (js ''I love my garden. It is beautiful and I am happy every day.'') = 0"
  "formalCount (js ''I love my garden. It is beautiful and I am happy every day.'') = 0"
  "length (tone_words (js ''I love my garden. It is beautiful and I am happy every day.'')) = 13"
  unfolding positiveCount_def negativeCount_def formalCount_def ex_tone_words
  by (simp_all add: positiveWords_def negativeWords_def formalWords_def js_def)

lemma ex_text_counts:
  "firstPersonIndicators (js ''I love my garden. It is beautiful and I am happy every day.'') = 3"
  "thirdPersonIndicators (js ''I love my garden. It is beautiful and I am happy every day.'') = 0"
  "presentTenseIndicators (js ''I love my garden. It is beautiful and I am happy every day.'') = 2"
  "pastTenseIndicators (js ''I love my garden. It is beautiful and I am happy every day.'') = 0"
  by (simp_all add: firstPersonIndicators_def thirdPersonIndicators_def presentTenseIndicators_def
        pastTenseIndicators_def js_def word_boundary_def is_word_char_def canonicalize_def)

lemma ex_narrative:
  "narrative_characteristics.pov (analyzeNarrativeCharacteristics
         (js ''I love my garden. It is beautiful and I am happy every day.'')) = Some (js ''first_person'')"
  "narrative_characteristics.tense (analyzeNarrativeCharacteristics
         (js ''I love my garden. It is beautiful and I am happy every day.'')) = Some (js ''present'')"
  unfolding analyzeNarrativeCharacteristics_def present_gt ex_text_counts by simp_all

lemma formal_gt:
  "f \<le> n \<Longrightarrow>
   js_gt (js_div (num_of_nat f) (num_of_nat n)) (Num (1 / 100))
     = (n \<noteq> 0 \<and> rat_of_nat f / rat_of_nat n > 1 / 100)"
  by (cases "n = 0") (simp_all add: js_gt_def num_of_nat_def)

lemma formalCount_le: "formalCount text \<le> length (tone_words text)"
  by (simp add: formalCount_def)

subsection \<open>The tone extractor counts the words of the lexicons\<close>

lemma tokens_run:
  "tokens s =
     (if takeWhile (\<lambda>x. \<not> is_space x) s = [] then [] else [takeWhile (\<lambda>x. \<not> is_space x) s])
     @ tokens (dropWhile (\<lambda>x. \<not> is_space x) s)"
  by (cases s) simp_all

lemma tokens_skip: "tokens (dropWhile is_space s) = tokens s"
  by (induction s) simp_all

lemma split_re_tokens:
  "sep = is_space \<Longrightarrow>
   filter (\<lambda>w. w \<noteq> []) (split_re sep cur s) =
     (if cur @ takeWhile (\<lambda>x. \<not> is_space x) s = [] then []
      else [cur @ takeWhile (\<lambda>x. \<not> is_space x) s])
     @ tokens (dropWhile (\<lambda>x. \<not> is_space x) s)"
proof (induction sep cur s rule: split_re.induct)
  case (1 sep cur)
  show ?case by simp
next
  case (2 sep cur c cs)
  show ?case
  proof (cases "is_space c")
    case True
    have "filter (\<lambda>w. w \<noteq> []) (split_re sep [] (dropWhile sep cs)) = tokens cs"
      using "2.IH"(1) "2.prems" True tokens_run [of "dropWhile is_space cs"]
      by (simp add: tokens_skip)
    then show ?thesis using True "2.prems" by simp
  next
    case False
    then show ?thesis using "2.IH"(2) "2.prems" by simp
  qed
qed

lemma words_of_tokens: "words_of s = tokens s"
  unfolding words_of_def split_re_tokens [OF refl] using tokens_run [of s] by simp

lemma is_space_lower: "is_space (if 65 \<le> c \<and> c \<le> 90 then c + 32 else c) = is_space c"
  by (simp add: is_space_def)

lemma tokens_toLowerCase: "tokens (toLowerCase s) = map toLowerCase (tokens s)"
proof (induction s rule: tokens.induct)
  case 1
  show ?case by (simp add: toLowerCase_def)
next
  case (2 c s)
  define f where "f = (\<lambda>c :: nat. if 65 \<le> c \<and> c \<le> 90 then c + 32 else c)"
  have sp: "is_space (f x) = is_space x" for x unfolding f_def by (rule is_space_lower)
  have low: "toLowerCase t = map f t" for t by (simp add: toLowerCase_def f_def)
  have tw: "takeWhile (\<lambda>x. \<not> is_space x) (map f s) = map f (takeWhile (\<lambda>x. \<not> is_space x) s)"
    by (simp add: takeWhile_map comp_def sp)
  have dw: "dropWhile (\<lambda>x. \<not> is_space x) (map f s) = map f (dropWhile (\<lambda>x. \<not> is_space x) s)"
    by (simp add: dropWhile_map comp_def sp)
  show ?case
  proof (cases "is_space c")
    case True
    then show ?thesis using "2.IH"(1) by (simp add: low sp)
  next
    case False
    then show ?thesis using "2.IH"(2) by (simp add: low sp tw dw)
  qed
qed

lemma tone_words_tokens: "tone_words text = map toLowerCase (tokens text)"
  by (simp add: tone_words_def words_of_tokens tokens_toLowerCase)

lemma lower_eq_canonical:
  assumes "\<forall>a \<in> set l. 97 \<le> a \<and> a \<le> 122"
  shows "(toLowerCase w = l) = (map canonicalize w = map canonicalize l)"
  using assms
proof (induction w arbitrary: l)
  case Nil
  show ?case by (auto simp: toLowerCase_def)
next
  case (Cons c w)
  show ?case
  proof (cases l)
    case Nil
    then show ?thesis by (simp add: toLowerCase_def)
  next
    case l: (Cons a l')
    have a: "97 \<le> a" "a \<le> 122" using Cons.prems l by simp_all
    have head: "((if 65 \<le> c \<and> c \<le> 90 then c + 32 else c) = a) = (canonicalize c = canonicalize a)"
      using a unfolding canonicalize_def by (simp split: if_splits) arith
    have tail: "(toLowerCase w = l') = (map canonicalize w = map canonicalize l')"
      using Cons.IH [of l'] Cons.prems l by simp
    show ?thesis using head tail l by (simp add: toLowerCase_def)
  qed
qed

lemma lower_in_lexicon:
  assumes "\<forall>l \<in> set ws. \<forall>a \<in> set l. 97 \<le> a \<and> a \<le> 122"
  shows "(toLowerCase w \<in> set ws) = (map canonicalize w \<in> set (map (map canonicalize) ws))"
proof -
  have "(toLowerCase w \<in> set ws) = (\<exists>l \<in> set ws. toLowerCase w = l)" by auto
  also have "\<dots> = (\<exists>l \<in> set ws. map canonicalize w = map canonicalize l)"
    using assms lower_eq_canonical by blast
  also have "\<dots> = (map canonicalize w \<in> set (map (map canonicalize) ws))" by auto
  finally show ?thesis .
qed

lemma count_in_lexicon:
  assumes "\<forall>l \<in> set ws. \<forall>a \<in> set l. 97 \<le> a \<and> a \<le> 122"
  shows "length (filter (\<lambda>word. word \<in> set ws) (tone_words text)) = lexicon_count ws text"
  unfolding tone_words_tokens lexicon_count_def filter_map length_map comp_def
    lower_in_lexicon [OF assms] by (rule refl)

lemma tone_counts:
  "positiveCount text
     = lexicon_count (map js [''happy'', ''joy'', ''love'', ''excellent'', ''good'', ''great'']) text"
  "negativeCount text
     = lexicon_count (map js [''sad'', ''angry'', ''hate'', ''terrible'', ''bad'', ''awful'']) text"
  "formalCount text
     = lexicon_count (map js [''therefore'', ''furthermore'', ''consequently'', ''nevertheless'']) text"
  "length (tone_words text) = length (tokens text)"
proof -
  show "positiveCount text
     = lexicon_count (map js [''happy'', ''joy'', ''love'', ''excellent'', ''good'', ''great'']) text"
    unfolding positiveCount_def positiveWords_def
    by (rule count_in_lexicon) (simp add: js_def)
  show "negativeCount text
     = lexicon_count (map js [''sad'', ''angry'', ''hate'', ''terrible'', ''bad'', ''awful'']) text"
    unfolding negativeCount_def negativeWords_def
    by (rule count_in_lexicon) (simp add: js_def)
  show "formalCount text
     = lexicon_count (map js [''therefore'', ''furthermore'', ''consequently'', ''nevertheless'']) text"
    unfolding formalCount_def formalWords_def
    by (rule count_in_lexicon) (simp add: js_def)
  show "length (tone_words text) = length (tokens text)"
    by (simp add: tone_words_tokens)
qed

lemma ex_tone_other:
  "emotional_tone (analyzeTone (js ''I am happy.'')) = Some [js ''neutral'']"
  "emotional_tone (analyzeTone (js ''I HATE this awful bad day'')) = Some [js ''pessimistic'']"
  "formality_level (analyzeTone (js ''Therefore it is so'')) = Some (js ''formal'')"
  "formality_level (analyzeTone (js ''Therefore, it is so'')) = Some (js ''casual'')"
  "formality_level (analyzeTone (js '''')) = Some (js ''casual'')"
  by (simp_all add: analyzeTone_def positiveCount_def negativeCount_def formalCount_def
        tone_words_def words_of_def toLowerCase_def is_space_def positiveWords_def negativeWords_def
        formalWords_def js_gt_def num_of_nat_def js_def)

text \<open>
  C7. The tone extractor counts, among the words of the text (the maximal runs of
  characters that are no white space, case ignored), those of the positive, the negative
  and the formal lexicon. The emotional tone is a list of one tag: \<^verbatim>\<open>optimistic\<close> when
  the positive count exceeds twice the negative count, else \<^verbatim>\<open>pessimistic\<close> when the
  negative count exceeds twice the positive count, else \<^verbatim>\<open>neutral\<close>. The formality level
  is \<^verbatim>\<open>formal\<close> exactly when there are words and the formal count divided by the number
  of words exceeds 0.01, and \<^verbatim>\<open>casual\<close> otherwise (with no words the quotient is
  \<^verbatim>\<open>NaN\<close>, which exceeds nothing). The garden text gives \<^verbatim>\<open>first_person\<close>,
  \<^verbatim>\<open>present\<close> and \<^verbatim>\<open>["optimistic"]\<close>. A word with punctuation on it is not a word
  of a lexicon: \<^verbatim>\<open>happy.\<close> and \<^verbatim>\<open>Therefore,\<close> are not counted.
\<close>

theorem analyzeTone_decision:
  "(positiveCount text
      = lexicon_count (map js [''happy'', ''joy'', ''love'', ''excellent'', ''good'', ''great'']) text
    \<and> negativeCount text
      = lexicon_count (map js [''sad'', ''angry'', ''hate'', ''terrible'', ''bad'', ''awful'']) text
    \<and> formalCount text
      = lexicon_count (map js [''therefore'', ''furthermore'', ''consequently'', ''nevertheless'']) text
    \<and> length (tone_words text) = length (tokens text))
   \<and> (emotional_tone (analyzeTone text) =
       Some [if lexicon_count (map js [''happy'', ''joy'', ''love'', ''excellent'', ''good'', ''great'']) text
                > 2 * lexicon_count (map js [''sad'', ''angry'', ''hate'', ''terrible'', ''bad'', ''awful'']) text
             then js ''optimistic''
             else if lexicon_count (map js [''sad'', ''angry'', ''hate'', ''terrible'', ''bad'', ''awful'']) text
                > 2 * lexicon_count (map js [''happy'', ''joy'', ''love'', ''excellent'', ''good'', ''great'']) text
             then js ''pessimistic''
             else js ''neutral'']
    \<and> (formality_level (analyzeTone text) = Some (js ''formal''))
       = (tokens text \<noteq> []
          \<and> rat_of_nat (lexicon_count
                (map js [''therefore'', ''furthermore'', ''consequently'', ''nevertheless'']) text)
              / rat_of_nat (length (tokens text)) > 1 / 100)
    \<and> (formality_level (analyzeTone text) = Some (js ''casual''))
       = (\<not> (tokens text \<noteq> []
          \<and> rat_of_nat (lexicon_count
                (map js [''therefore'', ''furthermore'', ''consequently'', ''nevertheless'']) text)
              / rat_of_nat (length (tokens text)) > 1 / 100)))
   \<and> (narrative_characteristics.pov (analyzeNarrativeCharacteristics
         (js ''I love my garden. It is beautiful and I am happy every day.'')) = Some (js ''first_person'')
    \<and> narrative_characteristics.tense (analyzeNarrativeCharacteristics
         (js ''I love my garden. It is beautiful and I am happy every day.'')) = Some (js ''present'')
    \<and> emotional_tone (analyzeTone (js ''I love my garden. It is beautiful and I am happy every day.''))
       = Some [js ''optimistic''])
   \<and> (emotional_tone (analyzeTone (js ''I am happy.'')) = Some [js ''neutral'']
    \<and> emotional_tone (analyzeTone (js ''I HATE this awful bad day'')) = Some [js ''pessimistic'']
    \<and> formality_level (analyzeTone (js ''Therefore it is so'')) = Some (js ''formal'')
    \<and> formality_level (analyzeTone (js ''Therefore, it is so'')) = Some (js ''casual'')
    \<and> formality_level (analyzeTone (js '''')) = Some (js ''casual''))"
  (is "?counts \<and> ?decision \<and> ?garden \<and> ?others")
proof -
  have counts: ?counts by (intro conjI tone_counts)
  define formal where "formal = (tone_words text \<noteq> []
          \<and> rat_of_nat (formalCount text) / rat_of_nat (length (tone_words text)) > 1 / 100)"
  have level: "formality_level (analyzeTone text) = Some (if formal then js ''formal'' else js ''casual'')"
    unfolding analyzeTone_def formal_gt [OF formalCount_le] formal_def by simp
  have ne: "(tone_words text \<noteq> []) = (tokens text \<noteq> [])"
    by (simp add: tone_words_tokens)
  have formal': "formal = (tokens text \<noteq> []
          \<and> rat_of_nat (lexicon_count
                (map js [''therefore'', ''furthermore'', ''consequently'', ''nevertheless'']) text)
              / rat_of_nat (length (tokens text)) > 1 / 100)"
    unfolding formal_def ne tone_counts by (rule refl)
  have tone: "emotional_tone (analyzeTone text) =
     Some [if positiveCount text > 2 * negativeCount text then js ''optimistic''
           else if negativeCount text > 2 * positiveCount text then js ''pessimistic''
           else js ''neutral'']"
    by (simp add: analyzeTone_def mult.commute)
  have d1: "emotional_tone (analyzeTone text) =
       Some [if lexicon_count (map js [''happy'', ''joy'', ''love'', ''excellent'', ''good'', ''great'']) text
                > 2 * lexicon_count (map js [''sad'', ''angry'', ''hate'', ''terrible'', ''bad'', ''awful'']) text
             then js ''optimistic''
             else if lexicon_count (map js [''sad'', ''angry'', ''hate'', ''terrible'', ''bad'', ''awful'']) text
                > 2 * lexicon_count (map js [''happy'', ''joy'', ''love'', ''excellent'', ''good'', ''great'']) text
             then js ''pessimistic''
             else js ''neutral'']"
    using tone unfolding tone_counts .
  have d2: "(formality_level (analyzeTone text) = Some (js ''formal'')) = formal"
    unfolding level by (simp add: js_literals_distinct js_literals_distinct [symmetric])
  have d3: "(formality_level (analyzeTone text) = Some (js ''casual'')) = (\<not> formal)"
    unfolding level by (simp add: js_literals_distinct js_literals_distinct [symmetric])
  have decision: ?decision
    using d1 d2 d3 unfolding formal' by (intro conjI)
  have g3: "emotional_tone (analyzeTone (js ''I love my garden. It is beautiful and I am happy every day.''))
       = Some [js ''optimistic'']"
    unfolding analyzeTone_def ex_tone_counts by simp
  have garden: ?garden by (intro conjI ex_narrative g3)
  have others: ?others by (intro conjI ex_tone_other)
  show ?thesis
    by (rule conjI [OF counts conjI [OF decision conjI [OF garden others]]])
qed

section \<open>Empty input to the aggregator\<close>

text \<open>
  C2. For no analyses the aggregator produces no style parameters: \<^verbatim>\<open>combineMetrics\<close>
  returns \<^verbatim>\<open>null\<close> (and only then), and on the aggregation path
  \<^verbatim>\<open>createStyleProfile\<close> throws the error "No style analyses found ..." before it calls
  \<^verbatim>\<open>combineMetrics\<close>, so that the path fails exactly for the empty input.
\<close>

theorem combineMetrics_empty_rejected:
  "combineMetrics [] = None
   \<and> (combineMetrics analyses = None) = (analyses = [])
   \<and> createStyleProfile_combine [] =
       Inl (Error (js ''Failed to create style profile: No style analyses found for the provided samples. Please analyze the samples first.''))
   \<and> isl (createStyleProfile_combine analyses) = (analyses = [])"
proof (intro conjI)
  show "combineMetrics [] = None" by (simp add: combineMetrics_def)
  show "(combineMetrics analyses = None) = (analyses = [])"
    by (simp add: combineMetrics_def Let_def split: prod.splits)
  show "createStyleProfile_combine [] =
       Inl (Error (js ''Failed to create style profile: No style analyses found for the provided samples. Please analyze the samples first.''))"
    by (simp add: createStyleProfile_combine_def js_def)
  show "isl (createStyleProfile_combine analyses) = (analyses = [])"
    by (simp add: createStyleProfile_combine_def)
qed

section \<open>Narrative lines of the guidance\<close>

lemma unknown_narrative:
  "Option.bind (combineMetrics [empty_bundle]) narrative
     = Some \<lparr> narrative_parameters.pov = js ''unknown'', tense = js ''unknown'',
         description_heavy = False, action_ratio = Num 1 \<rparr>"
proof -
  have p: "dominantPov [empty_bundle] = js ''unknown''"
    by (simp add: dominantPov_def dominant_def count_values_def empty_bundle_def truthy_str_def)
  have t: "dominantTense [empty_bundle] = js ''unknown''"
    by (simp add: dominantTense_def dominant_def count_values_def empty_bundle_def truthy_str_def)
  have r: "actionRatio [empty_bundle] = Num 1"
    by (simp add: actionRatio_def mean_of_def or_num_def num_of_nat_def empty_bundle_def)
  show ?thesis
    unfolding combineMetrics_def Let_def p t r by (simp split: prod.splits)
qed

text \<open>
  C9. In the Narrative Approach section a point of view that is neither
  \<^verbatim>\<open>first_person\<close> nor \<^verbatim>\<open>second_person\<close> is printed as "Third person", and a tense
  other than \<^verbatim>\<open>present\<close> is printed as "Past tense". \<^verbatim>\<open>unknown\<close> is such a value
  for both: the composite of a bundle without narrative characteristics has the point of
  view and the tense \<^verbatim>\<open>unknown\<close>, and its section reads "Third person" and
  "Past tense".
\<close>

theorem narrative_section_undetermined:
  "narrative_section (Some n) = js ''## Narrative Approach\<newline>'' @ pov_line n @ tense_line n @ balance_line n
   \<and> (narrative_parameters.pov n \<noteq> js ''first_person'' \<and> narrative_parameters.pov n \<noteq> js ''second_person''
        \<longrightarrow> pov_line n = js ''- Point of view: Third person\<newline>'')
   \<and> (narrative_parameters.tense n \<noteq> js ''present'' \<longrightarrow> tense_line n = js ''- Tense: Past tense\<newline>'')
   \<and> map_option (\<lambda>n. (narrative_parameters.pov n, narrative_parameters.tense n))
         (Option.bind (combineMetrics [empty_bundle]) narrative)
       = Some (js ''unknown'', js ''unknown'')
   \<and> narrative_section (Option.bind (combineMetrics [empty_bundle]) narrative)
       = js ''## Narrative Approach\<newline>- Point of view: Third person\<newline>- Tense: Past tense\<newline>- Description vs. action balance: Favor action and plot movement\<newline>\<newline>''"
proof (intro conjI)
  show "narrative_section (Some n) = js ''## Narrative Approach\<newline>'' @ pov_line n @ tense_line n @ balance_line n"
    by (simp add: narrative_section_def)
  show "narrative_parameters.pov n \<noteq> js ''first_person'' \<and> narrative_parameters.pov n \<noteq> js ''second_person''
        \<longrightarrow> pov_line n = js ''- Point of view: Third person\<newline>''"
    by (simp add: pov_line_def js_def)
  show "narrative_parameters.tense n \<noteq> js ''present'' \<longrightarrow> tense_line n = js ''- Tense: Past tense\<newline>''"
    by (simp add: tense_line_def js_def)
  show "map_option (\<lambda>n. (narrative_parameters.pov n, narrative_parameters.tense n))
         (Option.bind (combineMetrics [empty_bundle]) narrative)
       = Some (js ''unknown'', js ''unknown'')"
    unfolding unknown_narrative by simp
  show "narrative_section (Option.bind (combineMetrics [empty_bundle]) narrative)
       = js ''## Narrative Approach\<newline>- Point of view: Third person\<newline>- Tense: Past tense\<newline>- Description vs. action balance: Favor action and plot movement\<newline>\<newline>''"
    unfolding unknown_narrative
    by (simp add: narrative_section_def pov_line_def tense_line_def balance_line_def js_def)
qed

text \<open>The section for the point of view and the tense \<^verbatim>\<open>unknown\<close>.\<close>

theorem narrative_section_undetermined_witness:
  "narrative_parameters.pov \<lparr> narrative_parameters.pov = js ''unknown'', tense = js ''unknown'',
       description_heavy = False, action_ratio = Num 1 \<rparr> \<noteq> js ''first_person''
   \<and> narrative_parameters.pov \<lparr> narrative_parameters.pov = js ''unknown'', tense = js ''unknown'',
       description_heavy = False, action_ratio = Num 1 \<rparr> \<noteq> js ''second_person''
   \<and> narrative_parameters.tense \<lparr> narrative_parameters.pov = js ''unknown'', tense = js ''unknown'',
       description_heavy = False, action_ratio = Num 1 \<rparr> \<noteq> js ''present''
   \<and> narrative_section (Some \<lparr> narrative_parameters.pov = js ''unknown'', tense = js ''unknown'',
       description_heavy = False, action_ratio = Num 1 \<rparr>)
       = js ''## Narrative Approach\<newline>- Point of view: Third person\<newline>- Tense: Past tense\<newline>- Description vs. action balance: Favor action and plot movement\<newline>\<newline>''"
  using narrative_section_undetermined [of "\<lparr> narrative_parameters.pov = js ''unknown'', tense = js ''unknown'',
       description_heavy = False, action_ratio = Num 1 \<rparr>"]
  by (simp add: js_def balance_line_def)

section \<open>Means over the analyses\<close>

lemma js_add_zero [simp]: "js_add x (Num 0) = x"
  by (cases x) simp_all







section \<open>Aggregating copies of one bundle\<close>











section \<open>Missing action-to-reflection ratio\<close>







section \<open>Sections of the guidance\<close>

text \<open>
  C8, as amended. The guidance is the title followed by the seven sections in their fixed
  order. The sections Sentence Structure, Vocabulary, Narrative Approach, Tone and
  Stylistic Devices are empty text when their sub-object is absent and start with their
  header whenever it is present, whatever it holds. Similar Authors is empty text for an
  absent or empty list of authors and starts with its header otherwise; Additional Notes
  is empty text for absent or empty comments and is the header, the comments and a blank
  line otherwise. With everything absent the guidance is the title alone.
\<close>

theorem formatStyleGuidance_sections:
  "formatStyleGuidance sp =
     js ''# Style Guidance\<newline>\<newline>'' @ sentence_section (sentence sp) @ vocabulary_section (vocabulary sp)
     @ narrative_section (narrative sp) @ tone_section (tone sp) @ devices_section (devices sp)
     @ authors_section (style_parameters.comparable_authors sp) @ comments_section (user_comments sp)
   \<and> sentence_section None = []
   \<and> (\<exists>rest. sentence_section (Some s) = js ''## Sentence Structure\<newline>'' @ rest)
   \<and> vocabulary_section None = []
   \<and> (\<exists>rest. vocabulary_section (Some v) = js ''## Vocabulary\<newline>'' @ rest)
   \<and> narrative_section None = []
   \<and> (\<exists>rest. narrative_section (Some n) = js ''## Narrative Approach\<newline>'' @ rest)
   \<and> tone_section None = []
   \<and> (\<exists>rest. tone_section (Some t) = js ''## Tone\<newline>'' @ rest)
   \<and> devices_section None = []
   \<and> (\<exists>rest. devices_section (Some d) = js ''## Stylistic Devices\<newline>'' @ rest)
   \<and> authors_section None = [] \<and> authors_section (Some []) = []
   \<and> (names \<noteq> [] \<longrightarrow> (\<exists>rest. authors_section (Some names) = js ''## Similar Authors\<newline>'' @ rest))
   \<and> comments_section None = [] \<and> comments_section (Some []) = []
   \<and> (c \<noteq> [] \<longrightarrow> comments_section (Some c) = js ''## Additional Notes\<newline>'' @ c @ js ''\<newline>\<newline>'')
   \<and> formatStyleGuidance \<lparr> sentence = None, vocabulary = None, narrative = None, tone = None,
         devices = None, comparable_authors = None, user_comments = None \<rparr>
       = js ''# Style Guidance\<newline>\<newline>''"
proof (intro conjI)
  show "formatStyleGuidance sp =
     js ''# Style Guidance\<newline>\<newline>'' @ sentence_section (sentence sp) @ vocabulary_section (vocabulary sp)
     @ narrative_section (narrative sp) @ tone_section (tone sp) @ devices_section (devices sp)
     @ authors_section (style_parameters.comparable_authors sp) @ comments_section (user_comments sp)"
    by (simp only: formatStyleGuidance_def)
  show "sentence_section None = []" by (simp add: sentence_section_def)
  show "\<exists>rest. sentence_section (Some s) = js ''## Sentence Structure\<newline>'' @ rest"
    by (simp add: sentence_section_def Let_def)
  show "vocabulary_section None = []" by (simp add: vocabulary_section_def)
  show "\<exists>rest. vocabulary_section (Some v) = js ''## Vocabulary\<newline>'' @ rest"
    by (simp add: vocabulary_section_def)
  show "narrative_section None = []" by (simp add: narrative_section_def)
  show "\<exists>rest. narrative_section (Some n) = js ''## Narrative Approach\<newline>'' @ rest"
    by (simp add: narrative_section_def)
  show "tone_section None = []" by (simp add: tone_section_def)
  show "\<exists>rest. tone_section (Some t) = js ''## Tone\<newline>'' @ rest"
    by (simp add: tone_section_def)
  show "devices_section None = []" by (simp add: devices_section_def)
  show "\<exists>rest. devices_section (Some d) = js ''## Stylistic Devices\<newline>'' @ rest"
    by (simp add: devices_section_def Let_def)
  show "authors_section None = []" by (simp add: authors_section_def)
  show "authors_section (Some []) = []" by (simp add: authors_section_def)
  show "names \<noteq> [] \<longrightarrow> (\<exists>rest. authors_section (Some names) = js ''## Similar Authors\<newline>'' @ rest)"
    by (simp add: authors_section_def)
  show "comments_section None = []" by (simp add: comments_section_def truthy_str_def)
  show "comments_section (Some []) = []" by (simp add: comments_section_def truthy_str_def)
  show "c \<noteq> [] \<longrightarrow> comments_section (Some c) = js ''## Additional Notes\<newline>'' @ c @ js ''\<newline>\<newline>''"
    by (simp add: comments_section_def truthy_str_def)
  show "formatStyleGuidance \<lparr> sentence = None, vocabulary = None, narrative = None, tone = None,
         devices = None, comparable_authors = None, user_comments = None \<rparr>
       = js ''# Style Guidance\<newline>\<newline>''"
    by (simp add: formatStyleGuidance_def sentence_section_def vocabulary_section_def
          narrative_section_def tone_section_def devices_section_def authors_section_def
          comments_section_def truthy_str_def)
qed

text \<open>Guidance for one author and one comment, with no sub-object.\<close>

theorem formatStyleGuidance_sections_witness:
  "[js ''Jane Austen''] \<noteq> [] \<and> js ''Keep it short.'' \<noteq> []
   \<and> authors_section (Some [js ''Jane Austen''])
       = js ''## Similar Authors\<newline>- Emulate the style of: Jane Austen\<newline>\<newline>''
   \<and> comments_section (Some (js ''Keep it short.''))
       = js ''## Additional Notes\<newline>Keep it short.\<newline>\<newline>''
   \<and> formatStyleGuidance \<lparr> sentence = None, vocabulary = None, narrative = None, tone = None,
         devices = None, comparable_authors = Some [js ''Jane Austen''],
         user_comments = Some (js ''Keep it short.'') \<rparr>
       = js ''# Style Guidance\<newline>\<newline>## Similar Authors\<newline>- Emulate the style of: Jane Austen\<newline>\<newline>## Additional Notes\<newline>Keep it short.\<newline>\<newline>''"
proof -
  have h1: "[js ''Jane Austen''] \<noteq> []" by simp
  have h2: "js ''Keep it short.'' \<noteq> []" by (simp add: js_def)
  note t = formatStyleGuidance_sections [where sp = "\<lparr> sentence = None, vocabulary = None,
         narrative = None, tone = None, devices = None, comparable_authors = Some [js ''Jane Austen''],
         user_comments = Some (js ''Keep it short.'') \<rparr>"
         and names = "[js ''Jane Austen'']" and c = "js ''Keep it short.''"]
  have c: "comments_section (Some (js ''Keep it short.''))
       = js ''## Additional Notes\<newline>Keep it short.\<newline>\<newline>''"
    using t h2 by (simp add: js_def)
  have a: "authors_section (Some [js ''Jane Austen''])
       = js ''## Similar Authors\<newline>- Emulate the style of: Jane Austen\<newline>\<newline>''"
    by (simp add: authors_section_def js_def)
  have f: "formatStyleGuidance \<lparr> sentence = None, vocabulary = None, narrative = None, tone = None,
         devices = None, comparable_authors = Some [js ''Jane Austen''],
         user_comments = Some (js ''Keep it short.'') \<rparr>
       = js ''# Style Guidance\<newline>\<newline>'' @ authors_section (Some [js ''Jane Austen''])
         @ comments_section (Some (js ''Keep it short.''))"
    using t by simp
  show ?thesis unfolding f a c using h1 h2 by (simp add: js_def)
qed

text \<open>
  A tone object without properties (\<^verbatim>\<open>{tone: {}}\<close>) is present and empty, and gets the bare
  header \<^verbatim>\<open>## Tone\<close>; a devices object with no flag set gets the header
  \<^verbatim>\<open>## Stylistic Devices\<close> and a blank line.
\<close>

theorem formatStyleGuidance_empty_tone_counterexample:
  "formatStyleGuidance \<lparr> sentence = None, vocabulary = None, narrative = None,
       tone = Some \<lparr> emotional = None, formality = None, humor = None \<rparr>,
       devices = None, comparable_authors = None, user_comments = None \<rparr>
     = js ''# Style Guidance\<newline>\<newline>## Tone\<newline>''
   \<and> formatStyleGuidance \<lparr> sentence = None, vocabulary = None, narrative = None, tone = None,
       devices = Some \<lparr> metaphors = False, similes = False, alliteration = False, repetition = False,
         avoid = None \<rparr>,
       comparable_authors = None, user_comments = None \<rparr>
     = js ''# Style Guidance\<newline>\<newline>## Stylistic Devices\<newline>\<newline>''"
  by (simp add: formatStyleGuidance_def sentence_section_def vocabulary_section_def
        narrative_section_def tone_section_def devices_section_def authors_section_def
        comments_section_def truthy_str_def js_def)

section \<open>Dominant value and mode\<close>

lemma count_values_supplied:
  "foldl (\<lambda>counts a. if truthy_str (field a) then increment (the (field a)) counts else counts) acc as
     = foldl (\<lambda>counts v. increment v counts) acc (supplied field as)"
  by (induction as arbitrary: acc) (simp_all add: supplied_def)

lemma increment_map:
  assumes "distinct ks"
  shows "increment x (map (\<lambda>k. (k, c k)) ks) =
     (if x \<in> set ks then map (\<lambda>k. (k, if k = x then c k + 1 else c k)) ks
      else map (\<lambda>k. (k, c k)) ks @ [(x, 1)])"
  using assms by (induction ks) auto

lemma first_occurrences_snoc:
  "rev (remdups (rev (xs @ [x]))) =
     (if x \<in> set xs then rev (remdups (rev xs)) else rev (remdups (rev xs)) @ [x])"
  by simp

lemma counts_of_values:
  "foldl (\<lambda>counts v. increment v counts) [] xs
     = map (\<lambda>k. (k, count_list xs k)) (rev (remdups (rev xs)))"
proof (induction xs rule: rev_induct)
  case Nil
  show ?case by simp
next
  case (snoc x xs)
  have d: "distinct (rev (remdups (rev xs)))" by simp
  have s: "set (rev (remdups (rev xs))) = set xs" by simp
  have "foldl (\<lambda>counts v. increment v counts) [] (xs @ [x])
      = increment x (map (\<lambda>k. (k, count_list xs k)) (rev (remdups (rev xs))))"
    by (simp add: snoc.IH)
  also have "\<dots> = map (\<lambda>k. (k, count_list (xs @ [x]) k)) (rev (remdups (rev (xs @ [x]))))"
    unfolding increment_map [OF d] first_occurrences_snoc s
    by (auto simp: count_list_0_iff)
  finally show ?case .
qed

lemma find_append_first:
  "find P (xs @ ys) = (case find P xs of None \<Rightarrow> find P ys | Some x \<Rightarrow> Some x)"
  by (induction xs) simp_all

lemma find_first_occurrences: "find P (rev (remdups (rev xs))) = find P xs"
proof (induction xs rule: rev_induct)
  case Nil
  show ?case by simp
next
  case (snoc x xs)
  show ?case
  proof (cases "x \<in> set xs")
    case True
    then have "find P xs = None \<Longrightarrow> \<not> P x" by (auto simp: find_None_iff)
    then show ?thesis
      unfolding first_occurrences_snoc using True snoc.IH
      by (cases "find P xs") (simp_all add: find_append_first)
  next
    case False
    then show ?thesis
      unfolding first_occurrences_snoc using snoc.IH by (simp add: find_append_first)
  qed
qed

lemma dominant_foldl:
  "foldl (\<lambda>(dominantValue, maxCount) (k, n). if n > maxCount then (k, n) else (dominantValue, maxCount))
       (d, m :: nat) (map (\<lambda>k. (k, c k)) ks)
     = (case find (\<lambda>k. m < c k \<and> (\<forall>j \<in> set ks. c j \<le> c k)) ks of
          None \<Rightarrow> (d, m)
        | Some k \<Rightarrow> (k, c k))"
proof (induction ks arbitrary: d m)
  case Nil
  show ?case by simp
next
  case (Cons k ks)
  show ?case
  proof (cases "m < c k")
    case True
    note big = True
    show ?thesis
    proof (cases "\<forall>j \<in> set ks. c j \<le> c k")
      case True
      then have "find (\<lambda>i. c k < c i \<and> (\<forall>j \<in> set ks. c j \<le> c i)) ks = None"
        by (auto simp: find_None_iff)
      then show ?thesis using big True by (simp add: Cons.IH)
    next
      case False
      then obtain j where j: "j \<in> set ks" "c k < c j" by (auto simp: not_le)
      have "find (\<lambda>i. m < c i \<and> (\<forall>j \<in> set (k # ks). c j \<le> c i)) ks
          = find (\<lambda>i. c k < c i \<and> (\<forall>j \<in> set ks. c j \<le> c i)) ks"
      proof (rule find_cong [OF refl])
        fix i assume "i \<in> set ks"
        show "(m < c i \<and> (\<forall>j \<in> set (k # ks). c j \<le> c i))
            = (c k < c i \<and> (\<forall>j \<in> set ks. c j \<le> c i))"
          using j big by (auto dest: bspec [where x = j])
      qed
      moreover have "find (\<lambda>i. c k < c i \<and> (\<forall>j \<in> set ks. c j \<le> c i)) ks \<noteq> None"
      proof -
        have "Max (c ` set ks) \<in> c ` set ks" using j(1) by (intro Max_in) auto
        then obtain i where i: "i \<in> set ks" "c i = Max (c ` set ks)" by auto
        have top: "\<forall>j \<in> set ks. c j \<le> c i" unfolding i(2) by simp
        with j have "c k < c i" by (auto dest: bspec [where x = j])
        with i(1) top show ?thesis by (auto simp: find_None_iff)
      qed
      ultimately show ?thesis using big False by (auto simp: Cons.IH)
    qed
  next
    case False
    have "find (\<lambda>i. m < c i \<and> (\<forall>j \<in> set (k # ks). c j \<le> c i)) ks
        = find (\<lambda>i. m < c i \<and> (\<forall>j \<in> set ks. c j \<le> c i)) ks"
    proof (rule find_cong [OF refl])
      fix i assume "i \<in> set ks"
      show "(m < c i \<and> (\<forall>j \<in> set (k # ks). c j \<le> c i))
          = (m < c i \<and> (\<forall>j \<in> set ks. c j \<le> c i))"
        using False by auto
    qed
    then show ?thesis using False by (simp add: Cons.IH)
  qed
qed

lemma dominant_is_mode:
  "dominant d (count_values field analyses) = mode_first d (supplied field analyses)"
proof -
  define xs where "xs = supplied field analyses"
  define ks where "ks = rev (remdups (rev xs))"
  have ks: "set ks = set xs" by (simp add: ks_def)
  have cv: "count_values field analyses = map (\<lambda>k. (k, count_list xs k)) ks"
    unfolding count_values_def count_values_supplied counts_of_values xs_def ks_def by (rule refl)
  have "find (\<lambda>k. 0 < count_list xs k \<and> (\<forall>j \<in> set ks. count_list xs j \<le> count_list xs k)) ks
      = find (\<lambda>x. \<forall>y \<in> set xs. count_list xs y \<le> count_list xs x) ks"
  proof (rule find_cong [OF refl])
    fix k assume "k \<in> set ks"
    then have "0 < count_list xs k" using ks by (simp add: count_list_0_iff zero_less_iff_neq_zero)
    then show "(0 < count_list xs k \<and> (\<forall>j \<in> set ks. count_list xs j \<le> count_list xs k))
        = (\<forall>y \<in> set xs. count_list xs y \<le> count_list xs k)"
      using ks by simp
  qed
  also have "\<dots> = find (\<lambda>x. \<forall>y \<in> set xs. count_list xs y \<le> count_list xs x) xs"
    unfolding ks_def by (rule find_first_occurrences)
  finally have f: "find (\<lambda>k. 0 < count_list xs k \<and> (\<forall>j \<in> set ks. count_list xs j \<le> count_list xs k)) ks
      = find (\<lambda>x. \<forall>y \<in> set xs. count_list xs y \<le> count_list xs x) xs" .
  show ?thesis
    unfolding dominant_def cv dominant_foldl f mode_first_def xs_def [symmetric]
    by (simp split: option.splits)
qed

text \<open>
  C3. For at least one bundle, the composite point of view, tense and formality level
  are the modes of the values that the bundles supply (a value is supplied when it is
  present and not the empty string): the most frequent value, the first of them in
  sequence order when several are, and \<^verbatim>\<open>unknown\<close>, \<^verbatim>\<open>unknown\<close> and \<^verbatim>\<open>neutral\<close>
  when no bundle supplies one. The values are plain keys, as all values of the extractors
  are.
\<close>

theorem combineMetrics_mode:
  assumes "analyses \<noteq> []"
    and "\<forall>v \<in> set (supplied pov_of analyses) \<union> set (supplied tense_of analyses)
            \<union> set (supplied formality_level_of analyses). plain_key v"
  shows "\<exists>p n t. combineMetrics analyses = Some p \<and> narrative p = Some n \<and> tone p = Some t
     \<and> narrative_parameters.pov n = mode_first (js ''unknown'') (supplied pov_of analyses)
     \<and> narrative_parameters.tense n = mode_first (js ''unknown'') (supplied tense_of analyses)
     \<and> tone_parameters.formality t
         = Some (mode_first (js ''neutral'') (supplied formality_level_of analyses))"
proof -
  have p: "dominantPov analyses = mode_first (js ''unknown'') (supplied pov_of analyses)"
    unfolding dominantPov_def dominant_is_mode by (simp add: pov_of_def [abs_def])
  have t: "dominantTense analyses = mode_first (js ''unknown'') (supplied tense_of analyses)"
    unfolding dominantTense_def dominant_is_mode by (simp add: tense_of_def [abs_def])
  have f: "dominantFormality analyses = mode_first (js ''neutral'') (supplied formality_level_of analyses)"
    unfolding dominantFormality_def dominant_is_mode by (simp add: formality_level_of_def [abs_def])
  show ?thesis
    using assms(1) by (simp add: combineMetrics_def Let_def p t f split: prod.splits)
qed

lemma supplied_pov_bundles: "supplied pov_of (map pov_bundle ps) = filter (\<lambda>p. p \<noteq> []) ps"
  by (induction ps) (simp_all add: supplied_def pov_of_def pov_bundle_def empty_bundle_def truthy_str_def)

lemma supplied_other_bundles:
  "supplied tense_of (map pov_bundle ps) = []" "supplied formality_level_of (map pov_bundle ps) = []"
  by (induction ps)
     (simp_all add: supplied_def tense_of_def formality_level_of_def pov_bundle_def empty_bundle_def
        truthy_str_def)

text \<open>
  One bundle with the point of view \<^verbatim>\<open>third_person\<close> followed by two with
  \<^verbatim>\<open>first_person\<close>, none with a tense or a formality level.
\<close>

theorem combineMetrics_mode_witness:
  "map pov_bundle [js ''third_person'', js ''first_person'', js ''first_person''] \<noteq> []
   \<and> list_all plain_key
        (supplied pov_of (map pov_bundle [js ''third_person'', js ''first_person'', js ''first_person''])
         @ supplied tense_of (map pov_bundle [js ''third_person'', js ''first_person'', js ''first_person''])
         @ supplied formality_level_of
             (map pov_bundle [js ''third_person'', js ''first_person'', js ''first_person'']))
   \<and> map_option narrative_parameters.pov (Option.bind (combineMetrics
        (map pov_bundle [js ''third_person'', js ''first_person'', js ''first_person''])) narrative)
       = Some (js ''first_person'')
   \<and> map_option narrative_parameters.tense (Option.bind (combineMetrics
        (map pov_bundle [js ''third_person'', js ''first_person'', js ''first_person''])) narrative)
       = Some (js ''unknown'')
   \<and> Option.bind (Option.bind (combineMetrics
        (map pov_bundle [js ''third_person'', js ''first_person'', js ''first_person''])) tone)
        tone_parameters.formality
       = Some (js ''neutral'')"
proof -
  define as where "as = map pov_bundle [js ''third_person'', js ''first_person'', js ''first_person'']"
  have h1: "as \<noteq> []" by (simp add: as_def)
  have sp: "supplied pov_of as = [js ''third_person'', js ''first_person'', js ''first_person'']"
    unfolding as_def supplied_pov_bundles by (simp add: js_def)
  have st: "supplied tense_of as = []" "supplied formality_level_of as = []"
    unfolding as_def by (rule supplied_other_bundles)+
  have h2: "\<forall>v \<in> set (supplied pov_of as) \<union> set (supplied tense_of as)
            \<union> set (supplied formality_level_of as). plain_key v"
    unfolding sp st by (simp add: plain_key_def js_def)
  have m: "mode_first (js ''unknown'') [js ''third_person'', js ''first_person'', js ''first_person'']
      = js ''first_person''"
    by (simp add: mode_first_def js_def)
  from combineMetrics_mode [OF h1 h2] obtain p n t where
    r: "combineMetrics as = Some p" "narrative p = Some n" "tone p = Some t"
       "narrative_parameters.pov n = mode_first (js ''unknown'') (supplied pov_of as)"
       "narrative_parameters.tense n = mode_first (js ''unknown'') (supplied tense_of as)"
       "tone_parameters.formality t = Some (mode_first (js ''neutral'') (supplied formality_level_of as))"
    by blast
  have c: "map_option narrative_parameters.pov (Option.bind (combineMetrics as) narrative)
        = Some (js ''first_person'')"
     "map_option narrative_parameters.tense (Option.bind (combineMetrics as) narrative)
        = Some (js ''unknown'')"
     "Option.bind (Option.bind (combineMetrics as) tone) tone_parameters.formality = Some (js ''neutral'')"
    using r unfolding sp st m by (simp_all add: mode_first_def)
  have h2': "list_all plain_key
        (supplied pov_of as @ supplied tense_of as @ supplied formality_level_of as)"
    using h2 by (simp add: list_all_iff)
  show ?thesis using h1 h2' c unfolding as_def by simp
qed

end
